theory Spec2Isabelle
  imports Main
begin

section \<open>The voice recorder component (VoiceRecorder.js)\<close>

text \<open>
  The component runs on one of two capture backends, chosen by \<open>Platform.OS\<close>: the
  browser's MediaRecorder (\<open>'web'\<close>) or expo-av's file recorder (everything else).
\<close>

datatype platform = Web | Native

text \<open>The value of \<open>MediaRecorder.state\<close>.\<close>

datatype mr_state = Inactive | MRRecording | MRPaused

text \<open>
  What \<open>onRecordingComplete\<close> receives. On the web it is
  \<open>new File([audioBlob], "recording.webm", {type: "audio/webm"})\<close>, given here by its
  bytes, name and type; on a device it is the object \<open>{uri, type, name, size}\<close>, where
  \<open>size\<close> is \<open>fileInfo.size\<close> (absent when the file system reports none).
\<close>

datatype audio_data =
    File string string string
  | NativeAudio string string string "nat option"

text \<open>
  The component's state: the four \<open>useState\<close> cells, the four refs, and the part of
  the runtime the code drives through them: the table of live intervals of
  \<open>setInterval\<close>/\<open>clearInterval\<close> with the next free handle, and the calls made to
  \<open>onRecordingComplete\<close> so far, oldest first. \<open>mediaRecorderRef\<close> holds the state of
  the MediaRecorder it points to (\<open>None\<close> for \<open>null\<close>); \<open>recordingRef\<close> is \<open>True\<close> when
  it points to an \<open>Audio.Recording\<close>.
\<close>

record recorder =
  isRecording :: bool
  recordingTime :: nat
  isPaused :: bool
  permissionGranted :: bool
  recordingRef :: bool
  timerRef :: "nat option"
  mediaRecorderRef :: "mr_state option"
  audioChunksRef :: "string list"
  intervals :: "nat list"
  nextInterval :: nat
  completed :: "audio_data list"

definition initial_recorder :: recorder where
  "initial_recorder =
     \<lparr>isRecording = False, recordingTime = 0, isPaused = False, permissionGranted = False,
      recordingRef = False, timerRef = None, mediaRecorderRef = None, audioChunksRef = [],
      intervals = [], nextInterval = 1, completed = []\<rparr>"

text \<open>
  \<open>setInterval\<close> registers a callback under a fresh non-zero handle and returns the
  handle; \<open>clearInterval\<close> removes the handle from the table. The source guards each
  \<open>clearInterval\<close> by \<open>if (timerRef.current)\<close>, which is false for \<open>null\<close> and for 0.
\<close>

definition setInterval :: "recorder \<Rightarrow> nat \<times> recorder" where
  "setInterval r =
     (nextInterval r,
      r\<lparr>intervals := intervals r @ [nextInterval r], nextInterval := Suc (nextInterval r)\<rparr>)"

definition clearInterval :: "nat \<Rightarrow> recorder \<Rightarrow> recorder" where
  "clearInterval t r = r\<lparr>intervals := removeAll t (intervals r)\<rparr>"

definition clear_timer :: "recorder \<Rightarrow> recorder" where
  "clear_timer r =
     (case timerRef r of
        None \<Rightarrow> r
      | Some t \<Rightarrow> if t \<noteq> 0 then clearInterval t r else r)"

text \<open>
  The callback of every interval is \<open>setRecordingTime((prev) => prev + 1)\<close>. When a
  second passes, each live interval fires once.
\<close>

definition tick :: "recorder \<Rightarrow> recorder" where
  "tick r = r\<lparr>recordingTime := recordingTime r + length (intervals r)\<rparr>"

text \<open>
  The answers of the platform to \<open>requestPermissions\<close>: \<open>getUserMedia\<close> resolves or
  rejects on the web; on a device \<open>Audio.requestPermissionsAsync\<close> reports a status or
  throws.
\<close>

datatype perm_outcome = Granted | Denied | PermError

definition requestPermissions :: "platform \<Rightarrow> perm_outcome \<Rightarrow> recorder \<Rightarrow> recorder" where
  "requestPermissions plat out r =
     (case plat of
        Web \<Rightarrow>
          (case out of
             Granted \<Rightarrow> r\<lparr>mediaRecorderRef := Some Inactive, permissionGranted := True\<rparr>
           | _ \<Rightarrow> r\<lparr>permissionGranted := False\<rparr>)
      | Native \<Rightarrow>
          (case out of
             Granted \<Rightarrow> r\<lparr>permissionGranted := True\<rparr>
           | Denied \<Rightarrow> r\<lparr>permissionGranted := False\<rparr>
           | PermError \<Rightarrow> r\<lparr>permissionGranted := False\<rparr>))"

text \<open>
  \<open>startRecording\<close>. \<open>MediaRecorder.start()\<close> throws unless the recorder is inactive,
  and calling it through a \<open>null\<close> ref throws too; on a device \<open>created\<close> tells whether
  \<open>setAudioModeAsync\<close> and \<open>Audio.Recording.createAsync\<close> both succeeded. Every throw
  lands in the \<open>catch\<close>, which alerts and changes no state.
\<close>

definition startRecording :: "platform \<Rightarrow> perm_outcome \<Rightarrow> bool \<Rightarrow> recorder \<Rightarrow> recorder" where
  "startRecording plat out created r =
     (if \<not> permissionGranted r then requestPermissions plat out r
      else
        let started =
          (case plat of
             Web \<Rightarrow>
               (let r1 = r\<lparr>audioChunksRef := []\<rparr>
                in if mediaRecorderRef r1 = Some Inactive
                   then Inr (r1\<lparr>mediaRecorderRef := Some MRRecording\<rparr>)
                   else Inl r1)
           | Native \<Rightarrow> if created then Inr (r\<lparr>recordingRef := True\<rparr>) else Inl r)
        in case started of
             Inl r1 \<Rightarrow> r1
           | Inr r1 \<Rightarrow>
               (let r2 = r1\<lparr>isRecording := True, recordingTime := 0\<rparr>;
                    (t, r3) = setInterval r2
                in r3\<lparr>timerRef := Some t\<rparr>))"

text \<open>
  The MediaRecorder's \<open>stop()\<close>: the recorder becomes inactive, hands the data gathered
  so far to \<open>ondataavailable\<close> (which pushes it to \<open>audioChunksRef\<close>) and fires
  \<open>onstop\<close>, which builds the file from the chunks, calls \<open>onRecordingComplete\<close> and
  empties the chunks.
\<close>

definition media_stop :: "string \<Rightarrow> recorder \<Rightarrow> recorder" where
  "media_stop blob r =
     (let chunks = audioChunksRef r @ [blob];
          audioFile = File (concat chunks) ''recording.webm'' ''audio/webm''
      in r\<lparr>mediaRecorderRef := Some Inactive, audioChunksRef := [],
            completed := completed r @ [audioFile]\<rparr>)"

text \<open>
  What the device does at \<open>stopRecording\<close>: \<open>stopAndUnloadAsync\<close> throws, or it
  succeeds and \<open>getURI()\<close> returns a string or \<open>null\<close>, after which
  \<open>FileSystem.getInfoAsync\<close> throws or reports a size. The source tests the URI by
  \<open>if (uri)\<close>, which is false for \<open>null\<close> and for the empty string.
\<close>

datatype file_info = InfoFails | Info "nat option"

datatype stop_outcome = UnloadFails | Unloaded "string option" file_info

definition stopRecording :: "platform \<Rightarrow> string \<Rightarrow> stop_outcome \<Rightarrow> recorder \<Rightarrow> recorder" where
  "stopRecording plat blob out r =
     (let r1 = clear_timer r;
          r2 = r1\<lparr>isRecording := False, isPaused := False\<rparr>
      in case plat of
           Web \<Rightarrow> if mediaRecorderRef r2 = Some MRRecording then media_stop blob r2 else r2
         | Native \<Rightarrow>
             if \<not> recordingRef r2 then r2
             else
               (case out of
                  UnloadFails \<Rightarrow> r2
                | Unloaded uri info \<Rightarrow>
                    (let r3 = r2\<lparr>recordingRef := False\<rparr>
                     in case uri of
                          None \<Rightarrow> r3
                        | Some u \<Rightarrow>
                            if u = [] then r3
                            else (case info of
                                    InfoFails \<Rightarrow> r3
                                  | Info sz \<Rightarrow>
                                      r3\<lparr>completed := completed r3 @
                                           [NativeAudio u ''audio/m4a'' ''recording.m4a'' sz]\<rparr>))))"

text \<open>
  \<open>pauseRecording\<close> and \<open>resumeRecording\<close>. On a device \<open>pauseAsync\<close> and
  \<open>startAsync\<close> may throw; the \<open>catch\<close> only logs, after every state update has been
  made, so the outcome does not show in the state.
\<close>

definition pauseRecording :: "platform \<Rightarrow> recorder \<Rightarrow> recorder" where
  "pauseRecording plat r =
     (let r1 = clear_timer r;
          r2 = r1\<lparr>isPaused := True\<rparr>
      in case plat of
           Web \<Rightarrow> if mediaRecorderRef r2 = Some MRRecording
                  then r2\<lparr>mediaRecorderRef := Some MRPaused\<rparr> else r2
         | Native \<Rightarrow> r2)"

definition resumeRecording :: "platform \<Rightarrow> recorder \<Rightarrow> recorder" where
  "resumeRecording plat r =
     (let r1 = r\<lparr>isPaused := False\<rparr>;
          (t, r2) = setInterval r1;
          r3 = r2\<lparr>timerRef := Some t\<rparr>
      in case plat of
           Web \<Rightarrow> if mediaRecorderRef r3 = Some MRPaused
                  then r3\<lparr>mediaRecorderRef := Some MRRecording\<rparr> else r3
         | Native \<Rightarrow> r3)"

text \<open>
  What can happen to a mounted recorder: the user presses one of the rendered controls,
  or a second passes. The render function shows the permission button alone while
  \<open>permissionGranted\<close> is false; otherwise the start button while \<open>isRecording\<close> is
  false (disabled by the \<open>isProcessing\<close> prop), and while recording the stop button
  together with pause or resume, according to \<open>isPaused\<close>. A press of a control that
  is not rendered, or is disabled, does nothing. A handler runs as one step: what it
  awaits is an answer of the platform's recorder, given with the press.
\<close>

datatype ui_event =
    PressPermission perm_outcome
  | PressStart perm_outcome bool
  | PressPause
  | PressResume
  | PressStop string stop_outcome
  | Second

fun press :: "platform \<Rightarrow> bool \<Rightarrow> ui_event \<Rightarrow> recorder \<Rightarrow> recorder" where
  "press plat isProcessingProp (PressPermission out) r =
     (if \<not> permissionGranted r then requestPermissions plat out r else r)"
| "press plat isProcessingProp (PressStart out created) r =
     (if permissionGranted r \<and> \<not> isRecording r \<and> \<not> isProcessingProp
      then startRecording plat out created r else r)"
| "press plat isProcessingProp PressPause r =
     (if permissionGranted r \<and> isRecording r \<and> \<not> isPaused r
      then pauseRecording plat r else r)"
| "press plat isProcessingProp PressResume r =
     (if permissionGranted r \<and> isRecording r \<and> isPaused r
      then resumeRecording plat r else r)"
| "press plat isProcessingProp (PressStop blob out) r =
     (if permissionGranted r \<and> isRecording r then stopRecording plat blob out r else r)"
| "press plat isProcessingProp Second r = tick r"

text \<open>
  A history of a recorder: mounting runs \<open>requestPermissions\<close> once, then events
  arrive, each with the value the \<open>isProcessing\<close> prop has at that moment.
\<close>

definition mount :: "platform \<Rightarrow> perm_outcome \<Rightarrow> recorder" where
  "mount plat out = requestPermissions plat out initial_recorder"

fun run :: "platform \<Rightarrow> (bool \<times> ui_event) list \<Rightarrow> recorder \<Rightarrow> recorder" where
  "run plat [] r = r"
| "run plat ((p, e) # es) r = run plat es (press plat p e r)"

text \<open>
  The states of the recording state machine, read off the two flags the render
  function branches on.
\<close>

datatype rec_state = Idle | Recording | Paused

definition state_of :: "recorder \<Rightarrow> rec_state" where
  "state_of r = (if \<not> isRecording r then Idle else if isPaused r then Paused else Recording)"

text \<open>
  What every history of a mounted recorder preserves: handles are fresh, a recording
  recorder has been granted permission, the pause flag is only set while recording, and
  the interval table holds exactly the ticker of \<open>timerRef\<close> while recording and not
  paused, and nothing otherwise.
\<close>

definition ticker_inv :: "recorder \<Rightarrow> bool" where
  "ticker_inv r =
     (0 < nextInterval r \<and> list_all (\<lambda>t. 0 < t \<and> t < nextInterval r) (intervals r) \<and>
      (if isRecording r then permissionGranted r else \<not> isPaused r) \<and>
      (if isRecording r \<and> \<not> isPaused r
       then (case timerRef r of None \<Rightarrow> False | Some t \<Rightarrow> intervals r = [t])
       else intervals r = []))"

section \<open>The application component (App.js) and its children\<close>

subsection \<open>Data\<close>

text \<open>
  The two fixed texts of the handlers are Korean; they are given by their UTF-8 bytes.
  \<open>PROCESSING_TEXT\<close> is the interim text of a voice message's placeholder,
  \<open>ERROR_TEXT\<close> the text of the assistant message appended by the \<open>catch\<close> blocks.
\<close>

definition PROCESSING_TEXT :: string where
  "PROCESSING_TEXT =
     [CHR 0xEC, CHR 0x9D, CHR 0x8C, CHR 0xEC, CHR 0x84, CHR 0xB1, CHR 0x20, CHR 0xEB,
      CHR 0xA9, CHR 0x94, CHR 0xEC, CHR 0x8B, CHR 0x9C, CHR 0xEC, CHR 0xA7, CHR 0x80,
      CHR 0xEB, CHR 0xA5, CHR 0xBC, CHR 0x20, CHR 0xEC, CHR 0xB2, CHR 0x98, CHR 0xEB,
      CHR 0xA6, CHR 0xAC, CHR 0x20, CHR 0xEC, CHR 0xA4, CHR 0x91, CHR 0xEC, CHR 0x9E,
      CHR 0x85, CHR 0xEB, CHR 0x8B, CHR 0x88, CHR 0xEB, CHR 0x8B, CHR 0xA4, CHR 0x2E,
      CHR 0x2E, CHR 0x2E]"

definition ERROR_TEXT :: string where
  "ERROR_TEXT =
     [CHR 0xEC, CHR 0xA3, CHR 0x84, CHR 0xEC, CHR 0x86, CHR 0xA1, CHR 0xED, CHR 0x95,
      CHR 0xA9, CHR 0xEB, CHR 0x8B, CHR 0x88, CHR 0xEB, CHR 0x8B, CHR 0xA4, CHR 0x2E,
      CHR 0x20, CHR 0xEB, CHR 0xA9, CHR 0x94, CHR 0xEC, CHR 0x8B, CHR 0x9C, CHR 0xEC,
      CHR 0xA7, CHR 0x80, CHR 0x20, CHR 0xEC, CHR 0xB2, CHR 0x98, CHR 0xEB, CHR 0xA6,
      CHR 0xAC, CHR 0x20, CHR 0xEC, CHR 0xA4, CHR 0x91, CHR 0x20, CHR 0xEC, CHR 0x98,
      CHR 0xA4, CHR 0xEB, CHR 0xA5, CHR 0x98, CHR 0xEA, CHR 0xB0, CHR 0x80, CHR 0x20,
      CHR 0xEB, CHR 0xB0, CHR 0x9C, CHR 0xEC, CHR 0x83, CHR 0x9D, CHR 0xED, CHR 0x96,
      CHR 0x88, CHR 0xEC, CHR 0x8A, CHR 0xB5, CHR 0xEB, CHR 0x8B, CHR 0x88, CHR 0xEB,
      CHR 0x8B, CHR 0xA4, CHR 0x2E, CHR 0x20, CHR 0xEB, CHR 0x8B, CHR 0xA4, CHR 0xEC,
      CHR 0x8B, CHR 0x9C, CHR 0x20, CHR 0xEC, CHR 0x8B, CHR 0x9C, CHR 0xEB, CHR 0x8F,
      CHR 0x84, CHR 0xED, CHR 0x95, CHR 0xB4, CHR 0xEC, CHR 0xA3, CHR 0xBC, CHR 0xEC,
      CHR 0x84, CHR 0xB8, CHR 0xEC, CHR 0x9A, CHR 0x94, CHR 0x2E]"

text \<open>
  JavaScript truthiness of a string that may be \<open>null\<close> or \<open>undefined\<close>.
\<close>

definition truthy :: "string option \<Rightarrow> bool" where
  "truthy s = (case s of None \<Rightarrow> False | Some t \<Rightarrow> t \<noteq> [])"

text \<open>
  \<open>String.prototype.trim\<close> strips the white space and the line terminators of
  ECMAScript from both ends. With strings as UTF-8 bytes each of them is a sequence of
  one to three bytes: TAB, LF, VT, FF, CR, SP, U+00A0, U+1680, U+2000 to U+200A, U+2028,
  U+2029, U+202F, U+205F, U+3000 and U+FEFF. \<open>strip\<close> removes such sequences from the
  front for as long as one is there; the end is stripped on the reversed string with the
  reversed sequences.
\<close>

definition white_space :: "string list" where
  "white_space =
     [[CHR 0x09], [CHR 0x0A], [CHR 0x0B], [CHR 0x0C], [CHR 0x0D], [CHR 0x20],
      [CHR 0xC2, CHR 0xA0], [CHR 0xE1, CHR 0x9A, CHR 0x80],
      [CHR 0xE2, CHR 0x80, CHR 0x80], [CHR 0xE2, CHR 0x80, CHR 0x81],
      [CHR 0xE2, CHR 0x80, CHR 0x82], [CHR 0xE2, CHR 0x80, CHR 0x83],
      [CHR 0xE2, CHR 0x80, CHR 0x84], [CHR 0xE2, CHR 0x80, CHR 0x85],
      [CHR 0xE2, CHR 0x80, CHR 0x86], [CHR 0xE2, CHR 0x80, CHR 0x87],
      [CHR 0xE2, CHR 0x80, CHR 0x88], [CHR 0xE2, CHR 0x80, CHR 0x89],
      [CHR 0xE2, CHR 0x80, CHR 0x8A], [CHR 0xE2, CHR 0x80, CHR 0xA8],
      [CHR 0xE2, CHR 0x80, CHR 0xA9], [CHR 0xE2, CHR 0x80, CHR 0xAF],
      [CHR 0xE2, CHR 0x81, CHR 0x9F], [CHR 0xE3, CHR 0x80, CHR 0x80],
      [CHR 0xEF, CHR 0xBB, CHR 0xBF]]"

function strip :: "string list \<Rightarrow> string \<Rightarrow> string" where
  "strip ws s =
     (case find (\<lambda>w. w \<noteq> [] \<and> take (length w) s = w) ws of
        None \<Rightarrow> s
      | Some w \<Rightarrow> strip ws (drop (length w) s))"
  by pat_completeness auto
termination
proof (relation "measure (\<lambda>(ws, s). length s)")
  show "wf (measure (\<lambda>(ws, s). length s))"
    by simp
next
  fix ws :: "string list" and s w :: string
  assume "find (\<lambda>w. w \<noteq> [] \<and> take (length w) s = w) ws = Some w"
  then have w: "w \<noteq> []" "take (length w) s = w"
    by (auto simp: find_Some_iff)
  from w(2) have "length (take (length w) s) = length w"
    by simp
  then have "length w \<le> length s"
    by (simp add: min_def split: if_splits)
  with w(1) show "((ws, drop (length w) s), (ws, s)) \<in> measure (\<lambda>(ws, s). length s)"
    by (cases w) auto
qed

definition trim :: "string \<Rightarrow> string" where
  "trim s = rev (strip (map rev white_space) (rev (strip white_space s)))"

text \<open>The two panels, \<open>'emotion'\<close> and \<open>'chat'\<close>.\<close>

datatype panel = Emotion | Chat

text \<open>
  A value of the server's JSON that the client stores and never inspects
  (\<open>emotion_probability\<close>, \<open>emotion_top3\<close>) is kept as its text.
\<close>

type_synonym json = string

text \<open>
  An entry of \<open>messages\<close>. A property the object literal does not set is \<open>None\<close>.
  \<open>id_msg\<close> and \<open>text_msg\<close> are the properties \<open>id\<close> and \<open>text\<close>.
\<close>

record message =
  id_msg :: int
  text_msg :: string
  isUser :: bool
  emotion :: "string option"
  emotionProbability :: "json option"
  emotionTop3 :: "json option"
  audioUrl :: "string option"
  timestamp :: string

text \<open>What the server sends: the bodies of the three kinds of answers the handlers read.\<close>

record voice_data =
  transcribed_text :: string
  detected_emotion :: "string option"
  emotion_probability :: "json option"
  emotion_top3 :: "json option"
  llm_response :: string

record server_message =
  id_sm :: int
  content :: string
  role :: string
  emotion_sm :: "string option"
  emotion_probability_sm :: "json option"
  created_at :: string

record summary =
  id_conv :: string
  title :: "string option"
  last_message :: "string option"
  message_count :: nat
  updated_at :: string

text \<open>
  How an awaited \<open>fetch\<close> followed by \<open>response.json()\<close> can end: the fetch rejects,
  \<open>response.ok\<close> is false, reading the body rejects, or the body arrives.
\<close>

datatype 'a response = Rejected | HttpError | Malformed | Ok 'a

text \<open>
  How the speech request can end: the fetch rejects; \<open>ttsResponse.ok\<close> is false; the
  answer is good but turning it into something playable throws (\<open>blob()\<close> rejects, or
  on a device \<open>writeAsStringAsync\<close> does); or the audio is ready under a URL (a blob
  URL on the web, a file URI on a device).
\<close>

datatype tts_outcome = TtsRejected | TtsNotOk | TtsDecodeError | TtsAudio string

datatype delete_outcome = DeleteRejected | DeleteNotOk | DeleteOk

text \<open>
  The effects of the handlers that leave a trace outside the state cells, in the order
  in which they happen: a message appended to \<open>messages\<close>, a request sent, an
  \<open>alert\<close>, and a call of the history component's \<open>loadConversations\<close> through
  \<open>conversationHistoryRef\<close>. The bodies of the requests and the texts of the alerts are
  left out.
\<close>

datatype endpoint =
    CHAT_VOICE | CHAT_TEXT | CHAT_TTS | HISTORY_CONVERSATIONS | HISTORY_CONVERSATION string

datatype http_method = GET | POST | DELETE

datatype effect =
    Appended message
  | Fetch http_method endpoint
  | Alert
  | LoadConversations

text \<open>One reading of the clock: \<open>Date.now()\<close> and \<open>new Date().toISOString()\<close>.\<close>

record clock =
  now :: int
  iso :: string

text \<open>
  The state of \<open>App\<close> and of the \<open>ConversationHistory\<close> it always renders. The
  cell \<open>messages\<close> holds a reference to an array, so the state has the store of the
  arrays (\<open>arrays\<close>, with the next free address) and the reference (\<open>messagesRef\<close>).
  \<open>conversationHistoryRef\<close> tells whether the ref has been attached;
  \<open>conversations\<close> and \<open>isLoading\<close> are the cells of the history component.
\<close>

record app =
  arrays :: "nat \<Rightarrow> message list option"
  nextArray :: nat
  messagesRef :: nat
  isProcessing :: bool
  conversationId :: "string option"
  currentEmotion :: "string option"
  activePanel :: panel
  lastUsedPanel :: panel
  userTranscript :: string
  llmResponse :: string
  ttsAudioUrl :: "string option"
  conversationHistoryRef :: bool
  conversations :: "summary list"
  isLoading :: bool
  effects :: "effect list"

text \<open>The array the cell \<open>messages\<close> refers to.\<close>

definition messages :: "app \<Rightarrow> message list" where
  "messages st = (case arrays st (messagesRef st) of None \<Rightarrow> [] | Some xs \<Rightarrow> xs)"

text \<open>
  \<open>new_array\<close> allocates an array (an array literal, a spread, the result of
  \<open>map\<close>). \<open>setMessages\<close> with an updater function stores the freshly built array
  the updater returns; \<open>setMessages_ref\<close> stores a reference the caller already
  holds. \<open>array_reverse\<close> is \<open>Array.prototype.reverse\<close>: it reverses the array in
  place.
\<close>

definition new_array :: "message list \<Rightarrow> app \<Rightarrow> nat \<times> app" where
  "new_array xs st =
     (nextArray st,
      st\<lparr>arrays := (arrays st)(nextArray st \<mapsto> xs), nextArray := Suc (nextArray st)\<rparr>)"

definition setMessages_ref :: "nat \<Rightarrow> app \<Rightarrow> app" where
  "setMessages_ref a st = st\<lparr>messagesRef := a\<rparr>"

definition setMessages :: "(message list \<Rightarrow> message list) \<Rightarrow> app \<Rightarrow> app" where
  "setMessages f st = (let (a, st1) = new_array (f (messages st)) st in setMessages_ref a st1)"

definition array_reverse :: "nat \<Rightarrow> app \<Rightarrow> app" where
  "array_reverse a st = st\<lparr>arrays := (arrays st)(a := map_option rev (arrays st a))\<rparr>"

definition array_read :: "nat \<Rightarrow> app \<Rightarrow> message list" where
  "array_read a st = (case arrays st a of None \<Rightarrow> [] | Some xs \<Rightarrow> xs)"

definition emit :: "effect \<Rightarrow> app \<Rightarrow> app" where
  "emit e st = st\<lparr>effects := effects st @ [e]\<rparr>"

text \<open>\<open>setMessages((prev) => [...prev, m])\<close>.\<close>

definition append_message :: "message \<Rightarrow> app \<Rightarrow> app" where
  "append_message m st = emit (Appended m) (setMessages (\<lambda>prev. prev @ [m]) st)"

definition initial_app :: app where
  "initial_app =
     \<lparr>arrays = Map.empty(0 \<mapsto> []), nextArray = 1, messagesRef = 0, isProcessing = False,
      conversationId = None, currentEmotion = None, activePanel = Emotion,
      lastUsedPanel = Emotion, userTranscript = [], llmResponse = [], ttsAudioUrl = None,
      conversationHistoryRef = False, conversations = [], isLoading = False, effects = []\<rparr>"

subsection \<open>Starting and loading a conversation\<close>

text \<open>
  \<open>startNewConversation\<close>; \<open>newId\<close> is the identifier built from the clock and
  \<open>Math.random()\<close>.
\<close>

definition startNewConversation :: "string \<Rightarrow> app \<Rightarrow> app" where
  "startNewConversation newId st =
     (let st1 = st\<lparr>conversationId := Some newId\<rparr>;
          (a, st2) = new_array [] st1;
          st3 = setMessages_ref a st2
      in st3\<lparr>currentEmotion := None\<rparr>)"

definition display_message :: "server_message \<Rightarrow> message" where
  "display_message msg =
     \<lparr>id_msg = id_sm msg, text_msg = content msg, isUser = (role msg = ''user''),
      emotion = emotion_sm msg, emotionProbability = emotion_probability_sm msg,
      emotionTop3 = None, audioUrl = None, timestamp = created_at msg\<rparr>"

text \<open>
  \<open>loadConversation\<close>. The body of a good answer is \<open>None\<close> when \<open>data.messages\<close>
  is not an array, in which case \<open>data.messages.map\<close> throws after
  \<open>setConversationId\<close> has run. Otherwise \<open>displayMessages\<close> is the address of the
  array \<open>map\<close> builds; \<open>setMessages\<close> stores that address, and \<open>reverse\<close> is then
  applied to the array at the same address before \<open>find\<close> searches it.
\<close>

definition loadConversation ::
    "string \<Rightarrow> server_message list option response \<Rightarrow> app \<Rightarrow> app" where
  "loadConversation convId resp st =
     (let st0 = emit (Fetch GET (HISTORY_CONVERSATION convId)) st
      in case resp of
           Rejected \<Rightarrow> emit Alert st0
         | HttpError \<Rightarrow> st0
         | Malformed \<Rightarrow> emit Alert st0
         | Ok body \<Rightarrow>
             (let st1 = st0\<lparr>conversationId := Some convId\<rparr>
              in case body of
                   None \<Rightarrow> emit Alert st1
                 | Some msgs \<Rightarrow>
                     (let (displayMessages, st2) = new_array (map display_message msgs) st1;
                          st3 = setMessages_ref displayMessages st2;
                          st4 = array_reverse displayMessages st3;
                          lastUserMessage =
                            find (\<lambda>m. isUser m \<and> truthy (emotion m))
                              (array_read displayMessages st4)
                      in case lastUserMessage of
                           None \<Rightarrow> st4
                         | Some m \<Rightarrow> st4\<lparr>currentEmotion := emotion m\<rparr>)))"

subsection \<open>The history component (ConversationHistory.js)\<close>

text \<open>
  \<open>loadConversations\<close> runs up to its \<open>await\<close> when it is called, and its rest when
  the answer arrives. Whatever the answer, the rest only touches \<open>conversations\<close> and
  \<open>isLoading\<close>; a failure is logged to the console.
\<close>

definition loadConversations_begin :: "app \<Rightarrow> app" where
  "loadConversations_begin st = emit (Fetch GET HISTORY_CONVERSATIONS) (st\<lparr>isLoading := True\<rparr>)"

definition loadConversations_end :: "summary list response \<Rightarrow> app \<Rightarrow> app" where
  "loadConversations_end resp st =
     (case resp of
        Ok data \<Rightarrow> st\<lparr>conversations := data, isLoading := False\<rparr>
      | _ \<Rightarrow> st\<lparr>isLoading := False\<rparr>)"

text \<open>
  \<open>deleteConversation\<close>. \<open>confirmed\<close> is the answer of \<open>window.confirm\<close>. The
  function is a closure of the render in which the button was pressed: the
  \<open>conversations\<close> it filters and the \<open>currentConversationId\<close> it compares with are
  the values of that render (the prop is the cell \<open>conversationId\<close> of the parent), and
  it reads them after the \<open>await\<close> of the request. So the handler suspended at the
  request holds the identifier to delete and those two values. \<open>onNewConversation\<close>
  is the parent's \<open>startNewConversation\<close>, which runs on the state as it is when the
  answer arrives.
\<close>

datatype suspended_delete = DeleteAwaiting string "summary list" "string option"

definition deleteConversation_begin ::
    "string \<Rightarrow> bool \<Rightarrow> app \<Rightarrow> app \<times> suspended_delete option" where
  "deleteConversation_begin cid confirmed st =
     (if \<not> confirmed then (st, None)
      else (emit (Fetch DELETE (HISTORY_CONVERSATION cid)) st,
            Some (DeleteAwaiting cid (conversations st) (conversationId st))))"

fun deleteConversation_end :: "suspended_delete \<Rightarrow> delete_outcome \<Rightarrow> string \<Rightarrow> app \<Rightarrow> app" where
  "deleteConversation_end (DeleteAwaiting cid conversations0 currentConversationId) out newId st =
     (case out of
        DeleteRejected \<Rightarrow> emit Alert st
      | DeleteNotOk \<Rightarrow> emit Alert st
      | DeleteOk \<Rightarrow>
          (let st1 = st\<lparr>conversations := filter (\<lambda>c. id_conv c \<noteq> cid) conversations0\<rparr>
           in if Some cid = currentConversationId then startNewConversation newId st1
              else st1))"

text \<open>The delete from the press to the end, with nothing else happening in between.\<close>

definition deleteConversation ::
    "string \<Rightarrow> bool \<Rightarrow> delete_outcome \<Rightarrow> string \<Rightarrow> app \<Rightarrow> app" where
  "deleteConversation cid confirmed out newId st =
     (case deleteConversation_begin cid confirmed st of
        (st1, None) \<Rightarrow> st1
      | (st1, Some k) \<Rightarrow> deleteConversation_end k out newId st1)"

subsection \<open>The two exchanges\<close>

text \<open>
  A handler is asynchronous: it runs up to an \<open>await\<close>, and goes on from there when
  the awaited answer arrives. Each stretch between two awaits is a function of its own.
  What a suspended handler still holds in its local variables is its continuation: the
  voice handler waiting for the transcript holds \<open>userMessage.id\<close>, a handler waiting
  for the speech holds \<open>data\<close> (for the text handler, \<open>data.response\<close>).
\<close>

datatype pending =
    VoiceAwaitingReply int
  | VoiceAwaitingTts voice_data
  | TextAwaitingReply
  | TextAwaitingTts string

text \<open>
  The object literals of the handlers: \<open>userMessage\<close> of the voice handler (the
  placeholder) and of the text handler, \<open>assistantMessage\<close>, and \<open>errorMessage\<close>.
\<close>

definition voice_userMessage :: "clock \<Rightarrow> message" where
  "voice_userMessage t =
     \<lparr>id_msg = now t, text_msg = PROCESSING_TEXT, isUser = True, emotion = None,
      emotionProbability = None, emotionTop3 = None, audioUrl = None, timestamp = iso t\<rparr>"

definition text_userMessage :: "clock \<Rightarrow> string \<Rightarrow> message" where
  "text_userMessage t textMessage =
     \<lparr>id_msg = now t, text_msg = textMessage, isUser = True, emotion = None,
      emotionProbability = None, emotionTop3 = None, audioUrl = None, timestamp = iso t\<rparr>"

definition assistantMessage :: "clock \<Rightarrow> string \<Rightarrow> string option \<Rightarrow> message" where
  "assistantMessage t reply url =
     \<lparr>id_msg = now t + 1, text_msg = reply, isUser = False, emotion = None,
      emotionProbability = None, emotionTop3 = None, audioUrl = url, timestamp = iso t\<rparr>"

definition errorMessage :: "clock \<Rightarrow> message" where
  "errorMessage t =
     \<lparr>id_msg = now t + 2, text_msg = ERROR_TEXT, isUser = False, emotion = None,
      emotionProbability = None, emotionTop3 = None, audioUrl = None, timestamp = iso t\<rparr>"

text \<open>
  The update of the placeholder once the transcript is known: the function mapped over
  \<open>messages\<close>.
\<close>

definition attach_transcript :: "int \<Rightarrow> voice_data \<Rightarrow> message \<Rightarrow> message" where
  "attach_transcript userMessageId data msg =
     (if id_msg msg = userMessageId
      then msg\<lparr>text_msg := transcribed_text data, emotion := detected_emotion data,
               emotionProbability := emotion_probability data,
               emotionTop3 := emotion_top3 data\<rparr>
      else msg)"

text \<open>
  The \<open>catch\<close> block of both handlers followed by their \<open>finally\<close>, and the
  \<open>finally\<close> alone.
\<close>

definition finally_block :: "app \<Rightarrow> app" where
  "finally_block st = st\<lparr>isProcessing := False\<rparr>"

definition catch_block :: "clock \<Rightarrow> app \<Rightarrow> app" where
  "catch_block t st = finally_block (append_message (errorMessage t) st)"

text \<open>The call \<open>conversationHistoryRef.current?.loadConversations()\<close>, if the ref is attached.\<close>

definition refresh_history :: "app \<Rightarrow> app" where
  "refresh_history st =
     (if conversationHistoryRef st then loadConversations_begin (emit LoadConversations st)
      else st)"

text \<open>\<open>handleVoiceMessage\<close>, from its call to the \<open>await\<close> of the voice request.\<close>

definition handleVoiceMessage_begin :: "clock \<Rightarrow> audio_data \<Rightarrow> app \<Rightarrow> app \<times> pending" where
  "handleVoiceMessage_begin t audioData st =
     (let st1 = st\<lparr>isProcessing := True\<rparr>;
          st2 = st1\<lparr>lastUsedPanel := Emotion\<rparr>;
          st3 = st2\<lparr>userTranscript := PROCESSING_TEXT\<rparr>;
          st4 = st3\<lparr>llmResponse := []\<rparr>;
          st5 = st4\<lparr>ttsAudioUrl := None\<rparr>;
          userMessage = voice_userMessage t;
          st6 = append_message userMessage st5;
          st7 = emit (Fetch POST CHAT_VOICE) st6
      in (st7, VoiceAwaitingReply (id_msg userMessage)))"

text \<open>
  From the answer to the voice request to the \<open>await\<close> of the speech request, or to
  the end of the handler through \<open>catch\<close> and \<open>finally\<close>.
\<close>

definition handleVoiceMessage_reply ::
    "clock \<Rightarrow> int \<Rightarrow> voice_data response \<Rightarrow> app \<Rightarrow> app \<times> pending option" where
  "handleVoiceMessage_reply t userMessageId resp st =
     (case resp of
        Ok data \<Rightarrow>
          (let st1 = st\<lparr>userTranscript := transcribed_text data\<rparr>;
               st2 = st1\<lparr>currentEmotion := detected_emotion data\<rparr>;
               st3 = setMessages (map (attach_transcript userMessageId data)) st2;
               st4 = emit (Fetch POST CHAT_TTS) st3
           in (st4, Some (VoiceAwaitingTts data)))
      | _ \<Rightarrow> (catch_block t st, None))"

text \<open>From the answer to the speech request to the end of the handler.\<close>

definition handleVoiceMessage_tts :: "clock \<Rightarrow> voice_data \<Rightarrow> tts_outcome \<Rightarrow> app \<Rightarrow> app" where
  "handleVoiceMessage_tts t data out st =
     (let finish = (\<lambda>url.
            let st1 = st\<lparr>llmResponse := llm_response data\<rparr>;
                st2 = st1\<lparr>ttsAudioUrl := url\<rparr>;
                st3 = append_message (assistantMessage t (llm_response data) url) st2;
                st4 = refresh_history st3
            in finally_block st4)
      in case out of
           TtsRejected \<Rightarrow> catch_block t st
         | TtsDecodeError \<Rightarrow> catch_block t st
         | TtsNotOk \<Rightarrow> finish None
         | TtsAudio url \<Rightarrow> finish (Some url))"

text \<open>\<open>handleTextMessage\<close>, in the same three stretches.\<close>

definition handleTextMessage_begin :: "clock \<Rightarrow> string \<Rightarrow> app \<Rightarrow> app \<times> pending" where
  "handleTextMessage_begin t textMessage st =
     (let st1 = st\<lparr>isProcessing := True\<rparr>;
          st2 = st1\<lparr>lastUsedPanel := Chat\<rparr>;
          st3 = append_message (text_userMessage t textMessage) st2;
          st4 = emit (Fetch POST CHAT_TEXT) st3
      in (st4, TextAwaitingReply))"

definition handleTextMessage_reply ::
    "clock \<Rightarrow> string response \<Rightarrow> app \<Rightarrow> app \<times> pending option" where
  "handleTextMessage_reply t resp st =
     (case resp of
        Ok reply \<Rightarrow> (emit (Fetch POST CHAT_TTS) st, Some (TextAwaitingTts reply))
      | _ \<Rightarrow> (catch_block t st, None))"

definition handleTextMessage_tts :: "clock \<Rightarrow> string \<Rightarrow> tts_outcome \<Rightarrow> app \<Rightarrow> app" where
  "handleTextMessage_tts t reply out st =
     (let finish = (\<lambda>url.
            let st1 = append_message (assistantMessage t reply url) st;
                st2 = refresh_history st1
            in finally_block st2)
      in case out of
           TtsRejected \<Rightarrow> catch_block t st
         | TtsDecodeError \<Rightarrow> catch_block t st
         | TtsNotOk \<Rightarrow> finish None
         | TtsAudio url \<Rightarrow> finish (Some url))"

text \<open>
  One exchange from its call to its end, with nothing else happening in between: the
  answers of the server and the readings of the clock in the three stretches are given.
  The answer to the speech request is only looked at when that request is sent.
\<close>

definition handleVoiceMessage ::
    "clock \<Rightarrow> audio_data \<Rightarrow> clock \<Rightarrow> voice_data response \<Rightarrow> clock \<Rightarrow> tts_outcome \<Rightarrow>
     app \<Rightarrow> app" where
  "handleVoiceMessage t1 audioData t2 resp t3 tts st =
     (let (st1, k1) = handleVoiceMessage_begin t1 audioData st
      in case k1 of
           VoiceAwaitingReply userMessageId \<Rightarrow>
             (case handleVoiceMessage_reply t2 userMessageId resp st1 of
                (st2, Some (VoiceAwaitingTts data)) \<Rightarrow> handleVoiceMessage_tts t3 data tts st2
              | (st2, _) \<Rightarrow> st2)
         | _ \<Rightarrow> st1)"

definition handleTextMessage ::
    "clock \<Rightarrow> string \<Rightarrow> clock \<Rightarrow> string response \<Rightarrow> clock \<Rightarrow> tts_outcome \<Rightarrow> app \<Rightarrow> app" where
  "handleTextMessage t1 textMessage t2 resp t3 tts st =
     (let (st1, k1) = handleTextMessage_begin t1 textMessage st
      in case handleTextMessage_reply t2 resp st1 of
           (st2, Some (TextAwaitingTts reply)) \<Rightarrow> handleTextMessage_tts t3 reply tts st2
         | (st2, _) \<Rightarrow> st2)"

text \<open>
  The effects an exchange adds to those that happened before it; whether a request was
  answered with a body; whether the speech request was answered at all, well or not;
  and the cells of \<open>App\<close> an exchange writes, with the message list.
\<close>

definition replied :: "'a response \<Rightarrow> bool" where
  "replied resp = (case resp of Ok _ \<Rightarrow> True | _ \<Rightarrow> False)"




subsection \<open>What the two surfaces are given\<close>

text \<open>
  The props \<open>App\<close> passes to \<open>EmotionCharacterPanel\<close>, which hands its
  \<open>isProcessing\<close> on to its recorder. \<open>ChatScreen\<close> receives \<open>messages\<close>, the two
  handlers and \<open>isProcessing\<close> as it is, and has no prop for the transcript, the reply
  or the audio.
\<close>

record panel_props =
  isProcessing_prop :: bool
  currentEmotion_prop :: "string option"
  userTranscript_prop :: string
  llmResponse_prop :: string
  audioUrl_prop :: "string option"
  isActive_prop :: bool

definition emotionPanelProps :: "app \<Rightarrow> panel_props" where
  "emotionPanelProps st =
     \<lparr>isProcessing_prop = (if lastUsedPanel st = Emotion then isProcessing st else False),
      currentEmotion_prop = currentEmotion st,
      userTranscript_prop = (if lastUsedPanel st = Emotion then userTranscript st else []),
      llmResponse_prop = (if lastUsedPanel st = Emotion then llmResponse st else []),
      audioUrl_prop = (if lastUsedPanel st = Emotion then ttsAudioUrl st else None),
      isActive_prop = (activePanel st = Emotion)\<rparr>"

definition chatScreen_isProcessing :: "app \<Rightarrow> bool" where
  "chatScreen_isProcessing st = isProcessing st"

subsection \<open>The whole screen\<close>

text \<open>
  The mounted application: the state of \<open>App\<close>, the recorder of each surface (each
  surface renders a \<open>VoiceRecorder\<close> of its own, and both are given
  \<open>handleVoiceMessage\<close> as \<open>onRecordingComplete\<close>), the text field of the chat
  screen, the exchange handlers that are suspended at an \<open>await\<close>, and the
  delete handlers that are suspended at their request.
\<close>

record screen =
  App :: app
  emotionRecorder :: recorder
  chatRecorder :: recorder
  textInput :: string
  inflight :: "pending list"
  deleting :: "suspended_delete list"

text \<open>The answer that resumes a suspended handler.\<close>

datatype answer =
    VoiceAnswer "voice_data response"
  | TextAnswer "string response"
  | TtsAnswer tts_outcome

text \<open>
  What can happen on the screen: an event at the recorder of one surface, typing, the
  send button, an arrow button, the answer to the request the \<open>k\<close>-th suspended handler
  waits for, the answer to a request of \<open>loadConversations\<close>, and in the history
  list the button for a new conversation (with the identifier that is generated), the
  choice of a conversation (with the server's answer), the delete button of an entry
  (with the user's answer to the confirmation), and the answer to the request the
  \<open>k\<close>-th suspended delete waits for (with the identifier generated if a new
  conversation is started).
\<close>

datatype screen_event =
    AtRecorder panel ui_event
  | ChangeText string
  | PressSend
  | SwitchPanel panel
  | Answer nat answer
  | HistoryAnswer "summary list response"
  | PressNew string
  | SelectConversation string "server_message list option response"
  | PressDelete string bool
  | DeleteAnswer nat delete_outcome string

text \<open>
  An event at a recorder. The recorder sees the \<open>isProcessing\<close> prop of its surface.
  If the event makes the recorder call \<open>onRecordingComplete\<close>, the voice handler
  starts and runs up to its first \<open>await\<close>.
\<close>

definition recorder_event :: "platform \<Rightarrow> clock \<Rightarrow> panel \<Rightarrow> ui_event \<Rightarrow> screen \<Rightarrow> screen" where
  "recorder_event plat t pn e s =
     (let prop = (case pn of
                    Emotion \<Rightarrow> isProcessing_prop (emotionPanelProps (App s))
                  | Chat \<Rightarrow> chatScreen_isProcessing (App s));
          r = (case pn of Emotion \<Rightarrow> emotionRecorder s | Chat \<Rightarrow> chatRecorder s);
          r' = press plat prop e r;
          s1 = (case pn of
                  Emotion \<Rightarrow> s\<lparr>emotionRecorder := r'\<rparr>
                | Chat \<Rightarrow> s\<lparr>chatRecorder := r'\<rparr>)
      in case drop (length (completed r)) (completed r') of
           [] \<Rightarrow> s1
         | audioData # _ \<Rightarrow>
             (let (st, k) = handleVoiceMessage_begin t audioData (App s1)
              in s1\<lparr>App := st, inflight := inflight s1 @ [k]\<rparr>))"

text \<open>
  \<open>handleTextSubmit\<close> of the chat screen, and \<open>onChangeText\<close> of its text field,
  which is editable while \<open>isProcessing\<close> is false.
\<close>

definition handleTextSubmit :: "clock \<Rightarrow> screen \<Rightarrow> screen" where
  "handleTextSubmit t s =
     (if trim (textInput s) \<noteq> [] \<and> \<not> chatScreen_isProcessing (App s)
      then
        let (st, k) = handleTextMessage_begin t (trim (textInput s)) (App s)
        in s\<lparr>App := st, inflight := inflight s @ [k], textInput := []\<rparr>
      else s)"

definition changeText :: "string \<Rightarrow> screen \<Rightarrow> screen" where
  "changeText v s = (if chatScreen_isProcessing (App s) then s else s\<lparr>textInput := v\<rparr>)"

text \<open>
  An answer to the \<open>k\<close>-th suspended handler resumes it, if it is the kind of answer
  the handler waits for. A handler that reaches its end leaves the list.
\<close>

definition resume :: "clock \<Rightarrow> nat \<Rightarrow> answer \<Rightarrow> screen \<Rightarrow> screen" where
  "resume t k a s =
     (if k < length (inflight s) then
        let rest = take k (inflight s) @ drop (Suc k) (inflight s);
            continue = (\<lambda>(st, next).
              case next of
                None \<Rightarrow> s\<lparr>App := st, inflight := rest\<rparr>
              | Some k' \<Rightarrow> s\<lparr>App := st, inflight := (inflight s)[k := k']\<rparr>)
        in case (inflight s ! k, a) of
             (VoiceAwaitingReply userMessageId, VoiceAnswer resp) \<Rightarrow>
               continue (handleVoiceMessage_reply t userMessageId resp (App s))
           | (VoiceAwaitingTts data, TtsAnswer out) \<Rightarrow>
               continue (handleVoiceMessage_tts t data out (App s), None)
           | (TextAwaitingReply, TextAnswer resp) \<Rightarrow>
               continue (handleTextMessage_reply t resp (App s))
           | (TextAwaitingTts reply, TtsAnswer out) \<Rightarrow>
               continue (handleTextMessage_tts t reply out (App s), None)
           | _ \<Rightarrow> s
      else s)"

text \<open>
  The delete button starts \<open>deleteConversation\<close> in the closure of the current
  render; the answer to its request resumes it and it leaves the list.
\<close>

definition pressDelete :: "string \<Rightarrow> bool \<Rightarrow> screen \<Rightarrow> screen" where
  "pressDelete cid confirmed s =
     (case deleteConversation_begin cid confirmed (App s) of
        (st, None) \<Rightarrow> s\<lparr>App := st\<rparr>
      | (st, Some k) \<Rightarrow> s\<lparr>App := st, deleting := deleting s @ [k]\<rparr>)"

definition deleteAnswer :: "nat \<Rightarrow> delete_outcome \<Rightarrow> string \<Rightarrow> screen \<Rightarrow> screen" where
  "deleteAnswer k out newId s =
     (if k < length (deleting s)
      then s\<lparr>App := deleteConversation_end (deleting s ! k) out newId (App s),
             deleting := take k (deleting s) @ drop (Suc k) (deleting s)\<rparr>
      else s)"

fun screen_step :: "platform \<Rightarrow> clock \<Rightarrow> screen_event \<Rightarrow> screen \<Rightarrow> screen" where
  "screen_step plat t (AtRecorder pn e) s = recorder_event plat t pn e s"
| "screen_step plat t (ChangeText v) s = changeText v s"
| "screen_step plat t PressSend s = handleTextSubmit t s"
| "screen_step plat t (SwitchPanel pn) s = s\<lparr>App := (App s)\<lparr>activePanel := pn\<rparr>\<rparr>"
| "screen_step plat t (Answer k a) s = resume t k a s"
| "screen_step plat t (HistoryAnswer resp) s = s\<lparr>App := loadConversations_end resp (App s)\<rparr>"
| "screen_step plat t (PressNew newId) s = s\<lparr>App := startNewConversation newId (App s)\<rparr>"
| "screen_step plat t (SelectConversation convId resp) s =
     s\<lparr>App := loadConversation convId resp (App s)\<rparr>"
| "screen_step plat t (PressDelete cid confirmed) s = pressDelete cid confirmed s"
| "screen_step plat t (DeleteAnswer k out newId) s = deleteAnswer k out newId s"

fun screen_run :: "platform \<Rightarrow> (clock \<times> screen_event) list \<Rightarrow> screen \<Rightarrow> screen" where
  "screen_run plat [] s = s"
| "screen_run plat ((t, e) # es) s = screen_run plat es (screen_step plat t e s)"

text \<open>
  Mounting: the history component attaches its ref and its effect loads the list,
  \<open>App\<close>'s effect starts a new conversation, and each recorder asks for permission.
\<close>

definition mount_screen :: "platform \<Rightarrow> string \<Rightarrow> perm_outcome \<Rightarrow> perm_outcome \<Rightarrow> screen" where
  "mount_screen plat newId permEmotion permChat =
     \<lparr>App = startNewConversation newId
              (loadConversations_begin (initial_app\<lparr>conversationHistoryRef := True\<rparr>)),
      emotionRecorder = mount plat permEmotion,
      chatRecorder = mount plat permChat,
      textInput = [],
      inflight = [],
      deleting = []\<rparr>"

section \<open>Properties of the voice recorder\<close>

lemma ticker_inv_mount: "ticker_inv (mount plat out)"
  by (cases plat; cases out)
    (simp_all add: ticker_inv_def mount_def requestPermissions_def initial_recorder_def)

lemma ticker_inv_press:
  assumes "ticker_inv r"
  shows "ticker_inv (press plat p e r)"
proof (cases e)
  case (PressPermission out)
  with assms show ?thesis
    by (cases plat; cases out) (simp_all add: ticker_inv_def requestPermissions_def)
next
  case (PressStart out created)
  with assms show ?thesis
    by (cases plat)
      (auto simp: ticker_inv_def startRecording_def setInterval_def Let_def list_all_iff)
next
  case PressPause
  with assms show ?thesis
    by (cases plat)
      (auto simp: ticker_inv_def pauseRecording_def clearInterval_def clear_timer_def Let_def
        split: option.splits if_splits)
next
  case PressResume
  with assms show ?thesis
    by (cases plat)
      (auto simp: ticker_inv_def resumeRecording_def setInterval_def Let_def list_all_iff)
next
  case (PressStop blob out)
  with assms show ?thesis
    by (cases plat)
      (auto simp: ticker_inv_def stopRecording_def clearInterval_def clear_timer_def
        media_stop_def Let_def
        split: option.splits stop_outcome.splits file_info.splits if_splits)
next
  case Second
  with assms show ?thesis
    by (auto simp: ticker_inv_def tick_def split: option.splits if_splits)
qed

lemma ticker_inv_run: "ticker_inv r \<Longrightarrow> ticker_inv (run plat es r)"
  by (induction es arbitrary: r) (auto simp: ticker_inv_press)

lemma second_step:
  "ticker_inv r \<Longrightarrow>
     recordingTime (press plat p Second r) =
       (if state_of r = Recording then recordingTime r + 1 else recordingTime r)"
  by (auto simp: ticker_inv_def tick_def state_of_def split: option.splits)

lemma pause_step:
  "ticker_inv r \<Longrightarrow> state_of r = Recording \<Longrightarrow>
     state_of (press plat p PressPause r) = Paused \<and>
     recordingTime (press plat p PressPause r) = recordingTime r"
  by (cases plat)
    (auto simp: ticker_inv_def state_of_def pauseRecording_def clearInterval_def
      clear_timer_def Let_def split: option.splits if_splits)

lemma resume_step:
  "ticker_inv r \<Longrightarrow> state_of r = Paused \<Longrightarrow>
     state_of (press plat p PressResume r) = Recording \<and>
     recordingTime (press plat p PressResume r) = recordingTime r"
  by (cases plat)
    (auto simp: ticker_inv_def state_of_def resumeRecording_def setInterval_def Let_def
      split: option.splits if_splits)

lemma control_step:
  assumes "ticker_inv r" and "e \<noteq> Second"
  shows "recordingTime (press plat p e r) = recordingTime r \<or>
     (state_of r = Idle \<and> state_of (press plat p e r) = Recording \<and>
      recordingTime (press plat p e r) = 0)"
proof (cases e)
  case (PressPermission out)
  then show ?thesis
    by (cases plat; cases out) (simp_all add: requestPermissions_def)
next
  case (PressStart out created)
  with assms(1) show ?thesis
    by (cases plat)
      (auto simp: ticker_inv_def state_of_def startRecording_def setInterval_def Let_def)
next
  case PressPause
  then show ?thesis
    by (cases plat)
      (auto simp: pauseRecording_def clearInterval_def clear_timer_def Let_def
        split: option.splits)
next
  case PressResume
  then show ?thesis
    by (cases plat) (auto simp: resumeRecording_def setInterval_def Let_def)
next
  case (PressStop blob out)
  then show ?thesis
    by (cases plat)
      (auto simp: stopRecording_def clearInterval_def clear_timer_def media_stop_def Let_def
        split: option.splits stop_outcome.splits file_info.splits)
next
  case Second
  with assms(2) show ?thesis by simp
qed

lemma three_ticks:
  "recordingTime
     (run plat [(False, PressStart o1 True), (p1, Second), (p2, Second), (p3, Second),
                (p4, PressStop blob out)] (mount plat Granted)) = 3"
  by (cases plat)
    (simp_all add: mount_def initial_recorder_def requestPermissions_def startRecording_def
      stopRecording_def tick_def setInterval_def clearInterval_def clear_timer_def
      media_stop_def Let_def split: stop_outcome.splits file_info.splits option.splits)

lemma start_resets:
  assumes "state_of r = Idle" and "state_of (press plat p e r) = Recording"
  shows "recordingTime (press plat p e r) = 0"
proof (cases e)
  case (PressPermission out)
  with assms show ?thesis
    by (cases plat; cases out)
      (simp_all add: state_of_def requestPermissions_def split: if_splits)
next
  case (PressStart out created)
  with assms show ?thesis
    by (cases plat; cases out)
      (auto simp: state_of_def startRecording_def requestPermissions_def setInterval_def
        Let_def split: if_splits)
next
  case PressPause
  with assms show ?thesis by (simp add: state_of_def split: if_splits)
next
  case PressResume
  with assms show ?thesis by (simp add: state_of_def split: if_splits)
next
  case (PressStop blob out)
  with assms show ?thesis by (simp add: state_of_def split: if_splits)
next
  case Second
  with assms show ?thesis by (simp add: state_of_def tick_def split: if_splits)
qed

lemma start_succeeds:
  assumes "ticker_inv r" and "state_of r = Idle" and "permissionGranted r" and "\<not> p"
    and "case plat of Web \<Rightarrow> mediaRecorderRef r = Some Inactive | Native \<Rightarrow> created"
  shows "state_of (press plat p (PressStart out created) r) = Recording"
  using assms
  by (cases plat)
    (auto simp: ticker_inv_def state_of_def startRecording_def setInterval_def Let_def
      split: if_splits)

lemma second_state: "state_of (press plat p Second r) = state_of r"
  by (simp add: state_of_def tick_def)

lemma stop_keeps: "recordingTime (press plat p (PressStop blob out) r) = recordingTime r"
  by (cases plat)
    (auto simp: stopRecording_def clearInterval_def clear_timer_def media_stop_def Let_def
      split: option.splits stop_outcome.splits file_info.splits)

lemma three_ticks_on:
  assumes "ticker_inv r" and "state_of r = Recording"
  shows "recordingTime
      (run plat [(p1, Second), (p2, Second), (p3, Second), (p4, PressStop blob out)] r) =
    recordingTime r + 3"
proof -
  let ?r1 = "press plat p1 Second r"
  let ?r2 = "press plat p2 Second ?r1"
  let ?r3 = "press plat p3 Second ?r2"
  have i1: "ticker_inv ?r1" and s1: "state_of ?r1 = Recording"
    using assms by (simp_all only: ticker_inv_press second_state)
  have i2: "ticker_inv ?r2" and s2: "state_of ?r2 = Recording"
    using i1 s1 by (simp_all only: ticker_inv_press second_state)
  have t1: "recordingTime ?r1 = recordingTime r + 1"
    using second_step [OF assms(1), of plat p1] assms(2) by simp
  have t2: "recordingTime ?r2 = recordingTime ?r1 + 1"
    using second_step [OF i1, of plat p2] s1 by simp
  have t3: "recordingTime ?r3 = recordingTime ?r2 + 1"
    using second_step [OF i2, of plat p3] s2 by simp
  have "recordingTime (press plat p4 (PressStop blob out) ?r3) = recordingTime ?r3"
    by (rule stop_keeps)
  with t1 t2 t3 show ?thesis
    by (simp del: press.simps)
qed

text \<open>
  Claim C8. In every state \<open>r\<close> a mounted recorder can reach, on either platform: a
  second that passes adds exactly 1 to \<open>recordingTime\<close> while Recording and nothing in
  any other state; pausing leads to Paused and resuming back to Recording, both with
  \<open>recordingTime\<close> as it was; an event other than a passing second changes
  \<open>recordingTime\<close> only by taking the machine from Idle into Recording. Every step
  from Idle into Recording leaves \<open>recordingTime\<close> at 0, whatever it was before, and
  the start button does take that step when it is live and the backend starts (in the
  browser the MediaRecorder is inactive, on a device the recording is created). After
  such a step, three seconds and a stop leave 3 in the counter; so do a start, three
  seconds and a stop on a freshly mounted recorder.
\<close>

theorem recordingTime_ticker:
  assumes "r = run plat es (mount plat out)" and "r' = press plat p e r"
  shows "(e = Second \<and> state_of r = Recording \<longrightarrow> recordingTime r' = recordingTime r + 1) \<and>
    (e = Second \<and> state_of r \<noteq> Recording \<longrightarrow> recordingTime r' = recordingTime r) \<and>
    (e = PressPause \<and> state_of r = Recording \<longrightarrow>
       state_of r' = Paused \<and> recordingTime r' = recordingTime r) \<and>
    (e = PressResume \<and> state_of r = Paused \<longrightarrow>
       state_of r' = Recording \<and> recordingTime r' = recordingTime r) \<and>
    (e \<noteq> Second \<and> recordingTime r' \<noteq> recordingTime r \<longrightarrow>
       state_of r = Idle \<and> state_of r' = Recording \<and> recordingTime r' = 0) \<and>
    (state_of r = Idle \<and> state_of r' = Recording \<longrightarrow> recordingTime r' = 0) \<and>
    (e = PressStart o1 created \<and> state_of r = Idle \<and> permissionGranted r \<and> \<not> p \<and>
     (case plat of Web \<Rightarrow> mediaRecorderRef r = Some Inactive | Native \<Rightarrow> created) \<longrightarrow>
       state_of r' = Recording \<and> recordingTime r' = 0) \<and>
    (state_of r = Idle \<and> state_of r' = Recording \<longrightarrow>
       recordingTime
         (run plat [(p1, Second), (p2, Second), (p3, Second), (p4, PressStop blob so)] r') = 3) \<and>
    recordingTime
      (run plat [(False, PressStart o1 True), (p1, Second), (p2, Second), (p3, Second),
                 (p4, PressStop blob so)] (mount plat Granted)) = 3"
proof -
  have inv: "ticker_inv r"
    unfolding assms(1) by (rule ticker_inv_run) (rule ticker_inv_mount)
  have inv': "ticker_inv r'"
    unfolding assms(2) by (rule ticker_inv_press) (rule inv)
  have a1: "e = Second \<and> state_of r = Recording \<longrightarrow> recordingTime r' = recordingTime r + 1"
    using second_step [OF inv, of plat p] by (simp add: assms(2))
  have a2: "e = Second \<and> state_of r \<noteq> Recording \<longrightarrow> recordingTime r' = recordingTime r"
    using second_step [OF inv, of plat p] by (simp add: assms(2))
  have b: "e = PressPause \<and> state_of r = Recording \<longrightarrow>
      state_of r' = Paused \<and> recordingTime r' = recordingTime r"
    using pause_step [OF inv, of plat p] by (simp add: assms(2))
  have c: "e = PressResume \<and> state_of r = Paused \<longrightarrow>
      state_of r' = Recording \<and> recordingTime r' = recordingTime r"
    using resume_step [OF inv, of plat p] by (simp add: assms(2))
  have d: "e \<noteq> Second \<and> recordingTime r' \<noteq> recordingTime r \<longrightarrow>
      state_of r = Idle \<and> state_of r' = Recording \<and> recordingTime r' = 0"
    using control_step [OF inv, of e plat p] unfolding assms(2) by blast
  have f: "state_of r = Idle \<and> state_of r' = Recording \<longrightarrow> recordingTime r' = 0"
    using start_resets [of r plat p e] unfolding assms(2) by blast
  have g: "e = PressStart o1 created \<and> state_of r = Idle \<and> permissionGranted r \<and> \<not> p \<and>
     (case plat of Web \<Rightarrow> mediaRecorderRef r = Some Inactive | Native \<Rightarrow> created) \<longrightarrow>
       state_of r' = Recording \<and> recordingTime r' = 0"
  proof (intro impI, elim conjE)
    assume h: "e = PressStart o1 created" "state_of r = Idle" "permissionGranted r" "\<not> p"
      "case plat of Web \<Rightarrow> mediaRecorderRef r = Some Inactive | Native \<Rightarrow> created"
    have "state_of (press plat p (PressStart o1 created) r) = Recording"
      by (rule start_succeeds [OF inv h(2) h(3) h(4) h(5)])
    then have "state_of r' = Recording"
      unfolding assms(2) h(1) .
    with f h(2) show "state_of r' = Recording \<and> recordingTime r' = 0"
      by blast
  qed
  have k: "state_of r = Idle \<and> state_of r' = Recording \<longrightarrow>
       recordingTime
         (run plat [(p1, Second), (p2, Second), (p3, Second), (p4, PressStop blob so)] r') = 3"
  proof (intro impI, elim conjE)
    assume h: "state_of r = Idle" "state_of r' = Recording"
    from f h have "recordingTime r' = 0"
      by blast
    with three_ticks_on [OF inv' h(2), of plat p1 p2 p3 p4 blob so]
    show "recordingTime
         (run plat [(p1, Second), (p2, Second), (p3, Second), (p4, PressStop blob so)] r') = 3"
      by (simp only: add_0)
  qed
  show ?thesis
    by (intro conjI) (rule a1 a2 b c d f g k three_ticks)+
qed

theorem recordingTime_ticker_witness:
  "state_of (run Web [(False, PressStart Granted True), (False, Second)] (mount Web Granted))
     = Recording \<and>
   recordingTime (press Web False Second
       (run Web [(False, PressStart Granted True), (False, Second)] (mount Web Granted))) =
     recordingTime
       (run Web [(False, PressStart Granted True), (False, Second)] (mount Web Granted)) + 1 \<and>
   state_of (run Native [(False, PressStart Granted True), (False, Second), (False, PressPause)]
       (mount Native Granted)) = Paused \<and>
   recordingTime (press Native True Second
       (run Native [(False, PressStart Granted True), (False, Second), (False, PressPause)]
         (mount Native Granted))) = 1 \<and>
   state_of (press Native False PressPause
       (run Native [(False, PressStart Granted True), (False, Second)] (mount Native Granted)))
     = Paused \<and>
   state_of (press Web False PressResume
       (run Web [(False, PressStart Granted True), (False, Second), (False, PressPause)]
         (mount Web Granted))) = Recording \<and>
   recordingTime (press Web False PressResume
       (run Web [(False, PressStart Granted True), (False, Second), (False, PressPause)]
         (mount Web Granted))) = 1 \<and>
   state_of (run Web [(False, PressStart Granted True), (False, Second),
       (False, PressStop ''a'' UnloadFails)] (mount Web Granted)) = Idle \<and>
   recordingTime (run Web [(False, PressStart Granted True), (False, Second),
       (False, PressStop ''a'' UnloadFails)] (mount Web Granted)) = 1 \<and>
   state_of (press Web False (PressStart Granted True)
       (run Web [(False, PressStart Granted True), (False, Second),
         (False, PressStop ''a'' UnloadFails)] (mount Web Granted))) = Recording \<and>
   recordingTime (press Web False (PressStart Granted True)
       (run Web [(False, PressStart Granted True), (False, Second),
         (False, PressStop ''a'' UnloadFails)] (mount Web Granted))) = 0 \<and>
   recordingTime
     (run Web [(False, Second), (False, Second), (False, Second),
               (False, PressStop ''b'' UnloadFails)]
       (press Web False (PressStart Granted True)
         (run Web [(False, PressStart Granted True), (False, Second),
           (False, PressStop ''a'' UnloadFails)] (mount Web Granted)))) = 3"
proof -
  let ?start = "(False, PressStart Granted True)"
  let ?sec = "(False, Second)"
  let ?r1 = "run Web [?start, ?sec] (mount Web Granted)"
  let ?r2 = "run Native [?start, ?sec, (False, PressPause)] (mount Native Granted)"
  let ?r3 = "run Native [?start, ?sec] (mount Native Granted)"
  let ?r4 = "run Web [?start, ?sec, (False, PressPause)] (mount Web Granted)"
  let ?r5 = "run Web [?start, ?sec, (False, PressStop ''a'' UnloadFails)] (mount Web Granted)"
  note defs = mount_def initial_recorder_def requestPermissions_def startRecording_def
    stopRecording_def pauseRecording_def tick_def setInterval_def clearInterval_def
    clear_timer_def media_stop_def state_of_def Let_def
  have h1: "state_of ?r1 = Recording"
    by (simp add: defs)
  have h2: "state_of ?r2 = Paused" "state_of ?r2 \<noteq> Recording" "recordingTime ?r2 = 1"
    by (simp_all add: defs)
  have h3: "state_of ?r3 = Recording"
    by (simp add: defs)
  have h4: "state_of ?r4 = Paused" "recordingTime ?r4 = 1"
    by (simp_all add: defs)
  have h5: "state_of ?r5 = Idle" "permissionGranted ?r5" "mediaRecorderRef ?r5 = Some Inactive"
      "recordingTime ?r5 = 1"
    by (simp_all add: defs)
  have h5': "case Web of Web \<Rightarrow> mediaRecorderRef ?r5 = Some Inactive | Native \<Rightarrow> True"
    using h5(3) by simp
  have w1: "recordingTime (press Web False Second ?r1) = recordingTime ?r1 + 1"
    using recordingTime_ticker [where e = Second and plat = Web and p = False
        and es = "[?start, ?sec]" and out = Granted, OF refl refl] h1
    by blast
  have w2: "recordingTime (press Native True Second ?r2) = recordingTime ?r2"
    using recordingTime_ticker [where e = Second and plat = Native and p = True
        and es = "[?start, ?sec, (False, PressPause)]" and out = Granted, OF refl refl] h2(2)
    by blast
  have w3: "state_of (press Native False PressPause ?r3) = Paused"
    using recordingTime_ticker [where e = PressPause and plat = Native and p = False
        and es = "[?start, ?sec]" and out = Granted, OF refl refl] h3
    by blast
  have w4: "state_of (press Web False PressResume ?r4) = Recording \<and>
      recordingTime (press Web False PressResume ?r4) = recordingTime ?r4"
    using recordingTime_ticker [where e = PressResume and plat = Web and p = False
        and es = "[?start, ?sec, (False, PressPause)]" and out = Granted, OF refl refl] h4(1)
    by blast
  note at5 = recordingTime_ticker [where e = "PressStart Granted True" and plat = Web
        and p = False and es = "[?start, ?sec, (False, PressStop ''a'' UnloadFails)]"
        and out = Granted and ?o1.0 = Granted and created = True and ?p1.0 = False
        and ?p2.0 = False and ?p3.0 = False and ?p4.0 = False and blob = "''b''"
        and so = UnloadFails, OF refl refl]
  have w5: "state_of (press Web False (PressStart Granted True) ?r5) = Recording \<and>
      recordingTime (press Web False (PressStart Granted True) ?r5) = 0"
    using at5 h5(1) h5(2) h5' by blast
  have w6: "recordingTime
     (run Web [?sec, ?sec, ?sec, (False, PressStop ''b'' UnloadFails)]
       (press Web False (PressStart Granted True) ?r5)) = 3"
    using at5 h5(1) w5 by blast
  from h1 w1 h2(1) w2 h2(3) w3 w4 h4(2) h5(1) h5(4) w5 w6 show ?thesis
    by (simp only: simp_thms)
qed

text \<open>
  Stopping where the backend finalizes: on a device, from Recording or from Paused, with a
  recording that unloads and reports a non-empty URI; in the browser, when the
  MediaRecorder is in state \<open>'recording'\<close>. Exactly one asset is handed over and the
  machine is Idle again.
\<close>

lemma stop_native_delivers_one:
  assumes "ticker_inv r" and "isRecording r" and "recordingRef r" and "uri \<noteq> []"
  shows "completed (press Native p (PressStop blob (Unloaded (Some uri) (Info sz))) r) =
      completed r @ [NativeAudio uri ''audio/m4a'' ''recording.m4a'' sz] \<and>
    state_of (press Native p (PressStop blob (Unloaded (Some uri) (Info sz))) r) = Idle"
  using assms
  by (simp add: ticker_inv_def stopRecording_def clear_timer_def clearInterval_def state_of_def
      Let_def split: option.splits)

lemma stop_web_recording_delivers_one:
  assumes "ticker_inv r" and "isRecording r" and "mediaRecorderRef r = Some MRRecording"
  shows "completed (press Web p (PressStop blob out) r) =
      completed r @ [File (concat (audioChunksRef r @ [blob])) ''recording.webm'' ''audio/webm''] \<and>
    state_of (press Web p (PressStop blob out) r) = Idle"
  using assms
  by (simp add: ticker_inv_def stopRecording_def clear_timer_def clearInterval_def
      media_stop_def state_of_def Let_def split: option.splits)

text \<open>
  Claim C1, at the input where the code departs from it. In the browser: start, let a
  second pass, pause, stop. \<open>stopRecording\<close> calls \<open>MediaRecorder.stop()\<close> only when the
  recorder's state is \<open>'recording'\<close>; it is \<open>'paused'\<close>, so the recorder is never
  finalized, \<open>onstop\<close> never runs and \<open>onRecordingComplete\<close> receives nothing, while
  the flags go back to Idle. The recorder stays paused, so the next \<open>start()\<close> throws
  and the machine cannot leave Idle. On a device the same presses hand over one asset.
\<close>

theorem stop_while_paused_on_web:
  "let presses = [(False, PressStart Granted True), (False, Second), (False, PressPause),
                  (False, PressStop ''abc'' (Unloaded (Some ''file:///rec.m4a'') (Info (Some 3))))];
       r = run Web presses (mount Web Granted)
   in state_of r = Idle \<and> completed r = [] \<and> mediaRecorderRef r = Some MRPaused \<and>
      state_of (press Web False (PressStart Granted True) r) = Idle \<and>
      completed (run Native presses (mount Native Granted)) =
        [NativeAudio ''file:///rec.m4a'' ''audio/m4a'' ''recording.m4a'' (Some 3)]"
  by (simp add: mount_def initial_recorder_def requestPermissions_def startRecording_def
      stopRecording_def pauseRecording_def tick_def setInterval_def clearInterval_def
      clear_timer_def media_stop_def state_of_def Let_def)

section \<open>Properties of the exchanges\<close>

lemmas store_defs = messages_def setMessages_def new_array_def setMessages_ref_def emit_def
  append_message_def

lemmas handler_defs = handleVoiceMessage_def handleVoiceMessage_begin_def
  handleVoiceMessage_reply_def handleVoiceMessage_tts_def handleTextMessage_def
  handleTextMessage_begin_def handleTextMessage_reply_def handleTextMessage_tts_def
  catch_block_def finally_block_def refresh_history_def loadConversations_begin_def

lemmas recorder_defs = mount_def initial_recorder_def requestPermissions_def
  startRecording_def stopRecording_def pauseRecording_def resumeRecording_def tick_def
  setInterval_def clearInterval_def clear_timer_def media_stop_def

lemmas screen_defs = mount_screen_def recorder_event_def handleTextSubmit_def changeText_def
  resume_def emotionPanelProps_def chatScreen_isProcessing_def initial_app_def
  startNewConversation_def loadConversations_end_def pressDelete_def deleteAnswer_def
  deleteConversation_begin_def

lemma trim_hi: "trim ''hi'' = ''hi''"
  by (simp add: trim_def white_space_def)

text \<open>
  Claim C2. Whatever the state and the audio, the voice handler first appends the
  placeholder (a user message whose text is the interim text) and then sends the voice
  request, at which it is suspended for the first time: when it reaches that \<open>await\<close>
  the message list is the old one followed by the placeholder. However the exchange
  goes on, its effects begin with the append followed by the request.
\<close>

theorem placeholder_before_request:
  "messages (fst (handleVoiceMessage_begin t1 audioData st)) =
     messages st @ [voice_userMessage t1] \<and>
   effects (fst (handleVoiceMessage_begin t1 audioData st)) =
     effects st @ [Appended (voice_userMessage t1), Fetch POST CHAT_VOICE] \<and>
   (\<exists>rest. effects (handleVoiceMessage t1 audioData t2 resp t3 tts st) =
     effects st @ [Appended (voice_userMessage t1), Fetch POST CHAT_VOICE] @ rest) \<and>
   isUser (voice_userMessage t1) \<and> text_msg (voice_userMessage t1) = PROCESSING_TEXT"
proof (intro conjI)
  show "messages (fst (handleVoiceMessage_begin t1 audioData st)) =
      messages st @ [voice_userMessage t1]"
    by (simp add: handleVoiceMessage_begin_def Let_def store_defs)
  show "effects (fst (handleVoiceMessage_begin t1 audioData st)) =
      effects st @ [Appended (voice_userMessage t1), Fetch POST CHAT_VOICE]"
    by (simp add: handleVoiceMessage_begin_def Let_def store_defs)
  show "\<exists>rest. effects (handleVoiceMessage t1 audioData t2 resp t3 tts st) =
      effects st @ [Appended (voice_userMessage t1), Fetch POST CHAT_VOICE] @ rest"
    by (cases resp; cases tts) (simp_all add: handler_defs Let_def store_defs)
  show "isUser (voice_userMessage t1)"
    by (simp add: voice_userMessage_def)
  show "text_msg (voice_userMessage t1) = PROCESSING_TEXT"
    by (simp add: voice_userMessage_def)
qed

text \<open>
  Where the speech request is answered without success (\<open>ttsResponse.ok\<close> is false),
  the exchange ends with the reply as a message without audio, and no error message.
\<close>

lemma synthesis_not_ok:
  "messages (handleVoiceMessage t1 audioData t2 (Ok data) t3 TtsNotOk st) =
     map (attach_transcript (now t1) data) (messages st @ [voice_userMessage t1]) @
       [assistantMessage t3 (llm_response data) None]"
  by (simp add: handler_defs Let_def store_defs voice_userMessage_def)

text \<open>
  Claim C5, at the input where the code departs from it. The voice request succeeds
  with the transcript \<open>hello\<close> and the reply \<open>there\<close>; the speech request fails
  by rejecting (the network is gone), which throws inside the same \<open>try\<close>. The
  \<open>catch\<close> appends the error message: the message list ends with the transcript
  followed by the fixed error text, no message carries the reply, and \<open>llmResponse\<close>
  stays empty.
\<close>

theorem synthesis_rejected:
  "let data = \<lparr>transcribed_text = ''hello'', detected_emotion = Some ''sad'',
               emotion_probability = None, emotion_top3 = None, llm_response = ''there''\<rparr>;
       st = handleVoiceMessage \<lparr>now = 1000, iso = ''t1''\<rparr>
              (File ''abc'' ''recording.webm'' ''audio/webm'')
              \<lparr>now = 2000, iso = ''t2''\<rparr> (Ok data) \<lparr>now = 3000, iso = ''t3''\<rparr> TtsRejected
              initial_app
   in map text_msg (messages st) = [''hello'', ERROR_TEXT] \<and> llmResponse st = [] \<and>
      \<not> isProcessing st"
  by (simp add: handler_defs store_defs Let_def initial_app_def voice_userMessage_def
      errorMessage_def attach_transcript_def)

text \<open>
  Claim C6. When the voice request is not answered with a body (the fetch rejects, the
  status is not a success, or the body cannot be read), the exchange appends the
  placeholder and then exactly one message, the assistant's with the fixed error text;
  it sends the voice request once and no other request; the placeholder stays in the
  list with its interim text, which is not empty; and the flag is cleared. The same
  holds of the stretch that handles the answer, in whatever state \<open>st'\<close> the answer
  finds the application: it appends the error message and the handler ends.
\<close>

theorem transport_failure:
  assumes "\<not> replied resp"
  shows "messages (handleVoiceMessage t1 audioData t2 resp t3 tts st) =
      messages st @ [voice_userMessage t1, errorMessage t2] \<and>
    effects (handleVoiceMessage t1 audioData t2 resp t3 tts st) =
      effects st @ [Appended (voice_userMessage t1), Fetch POST CHAT_VOICE,
                    Appended (errorMessage t2)] \<and>
    handleVoiceMessage_reply t2 userMessageId resp st' = (catch_block t2 st', None) \<and>
    messages (catch_block t2 st') = messages st' @ [errorMessage t2] \<and>
    effects (catch_block t2 st') = effects st' @ [Appended (errorMessage t2)] \<and>
    text_msg (voice_userMessage t1) = PROCESSING_TEXT \<and> PROCESSING_TEXT \<noteq> [] \<and>
    \<not> isUser (errorMessage t2) \<and> text_msg (errorMessage t2) = ERROR_TEXT \<and>
    \<not> isProcessing (handleVoiceMessage t1 audioData t2 resp t3 tts st)"
  using assms
  by (cases resp)
    (simp_all add: replied_def handler_defs Let_def store_defs voice_userMessage_def
      errorMessage_def PROCESSING_TEXT_def)

theorem transport_failure_witness:
  "messages (handleVoiceMessage \<lparr>now = 1000, iso = ''t1''\<rparr>
       (File ''abc'' ''recording.webm'' ''audio/webm'') \<lparr>now = 2000, iso = ''t2''\<rparr> HttpError
       \<lparr>now = 3000, iso = ''t3''\<rparr> TtsNotOk initial_app) =
     [voice_userMessage \<lparr>now = 1000, iso = ''t1''\<rparr>, errorMessage \<lparr>now = 2000, iso = ''t2''\<rparr>]"
proof -
  have h: "\<not> replied (HttpError :: voice_data response)"
    by (simp add: replied_def)
  have m: "messages initial_app = []"
    by (simp add: messages_def initial_app_def)
  from transport_failure [OF h, of "\<lparr>now = 1000, iso = ''t1''\<rparr>"
      "File ''abc'' ''recording.webm'' ''audio/webm''" "\<lparr>now = 2000, iso = ''t2''\<rparr>"
      "\<lparr>now = 3000, iso = ''t3''\<rparr>" TtsNotOk initial_app] m
  show ?thesis by simp
qed











section \<open>Properties of the two surfaces\<close>

text \<open>
  Claim C3, as the code has it. Against the claim: on a freshly mounted screen the user
  types \<open>hi\<close> and sends it, then starts and stops a recording on the emotion panel.
  The text exchange sets \<open>lastUsedPanel\<close> to \<open>'chat'\<close>, so the emotion panel passes
  \<open>false\<close> as \<open>isProcessing\<close> to its recorder and the start button is live; the
  recording is handed to \<open>handleVoiceMessage\<close>, which has no gate. Two handlers are
  then suspended at their requests while \<open>isProcessing\<close> is true.
\<close>

theorem two_exchanges_in_flight:
  "let s = screen_run Web
             [(\<lparr>now = 1000, iso = ''t1''\<rparr>, ChangeText ''hi''),
              (\<lparr>now = 1000, iso = ''t1''\<rparr>, PressSend),
              (\<lparr>now = 2000, iso = ''t2''\<rparr>, AtRecorder Emotion (PressStart Granted True)),
              (\<lparr>now = 3000, iso = ''t3''\<rparr>, AtRecorder Emotion (PressStop ''abc'' UnloadFails))]
             (mount_screen Web ''conv_1'' Granted Granted)
   in isProcessing (App s) \<and> inflight s = [TextAwaitingReply, VoiceAwaitingReply 3000]"
  by (simp add: screen_defs recorder_defs handler_defs store_defs Let_def trim_hi
      voice_userMessage_def text_userMessage_def)

text \<open>
  Claim C3, amended. While \<open>isProcessing\<close> is true: the send button and the text
  field of the chat screen do nothing; the start button of the chat screen's recorder
  does nothing; the start button of the emotion panel's recorder does nothing if
  \<open>lastUsedPanel\<close> is \<open>'emotion'\<close>, that is, if the exchange under way is a voice
  exchange; and if \<open>lastUsedPanel\<close> is \<open>'chat'\<close> that recorder acts as it does when
  nothing is being processed.
\<close>

theorem gates_while_processing:
  assumes "isProcessing (App s)"
  shows "handleTextSubmit t s = s \<and> changeText v s = s \<and>
    recorder_event plat t Chat (PressStart out created) s = s \<and>
    (lastUsedPanel (App s) = Emotion \<longrightarrow>
       recorder_event plat t Emotion (PressStart out created) s = s) \<and>
    (lastUsedPanel (App s) = Chat \<longrightarrow>
       emotionRecorder (recorder_event plat t Emotion (PressStart out created) s) =
         press plat False (PressStart out created) (emotionRecorder s))"
proof -
  have same: "drop (length (completed r)) (completed (press plat p (PressStart out created) r)) = []"
    for r p
    by (cases plat)
      (simp_all add: startRecording_def requestPermissions_def setInterval_def Let_def
        split: perm_outcome.splits)
  have gated: "press plat True (PressStart out created) r = r" for r
    by simp
  show ?thesis
    using assms
    by (simp add: handleTextSubmit_def changeText_def chatScreen_isProcessing_def
        recorder_event_def emotionPanelProps_def Let_def same gated del: press.simps)
qed

theorem gates_while_processing_witness:
  "(let s = screen_run Web
       [(\<lparr>now = 1000, iso = ''t1''\<rparr>, AtRecorder Emotion (PressStart Granted True)),
        (\<lparr>now = 2000, iso = ''t2''\<rparr>, AtRecorder Emotion (PressStop ''abc'' UnloadFails))]
       (mount_screen Web ''conv_1'' Granted Granted)
    in isProcessing (App s) \<and> lastUsedPanel (App s) = Emotion \<and>
       recorder_event Web \<lparr>now = 3000, iso = ''t3''\<rparr> Emotion (PressStart Granted True) s = s \<and>
       recorder_event Web \<lparr>now = 3000, iso = ''t3''\<rparr> Chat (PressStart Granted True) s = s \<and>
       handleTextSubmit \<lparr>now = 3000, iso = ''t3''\<rparr> (s\<lparr>textInput := ''hi''\<rparr>) =
         s\<lparr>textInput := ''hi''\<rparr>) \<and>
   (let s = screen_run Web
       [(\<lparr>now = 1000, iso = ''t1''\<rparr>, ChangeText ''hi''),
        (\<lparr>now = 1000, iso = ''t1''\<rparr>, PressSend)]
       (mount_screen Web ''conv_1'' Granted Granted)
    in isProcessing (App s) \<and> lastUsedPanel (App s) = Chat \<and>
       emotionRecorder
         (recorder_event Web \<lparr>now = 3000, iso = ''t3''\<rparr> Emotion (PressStart Granted True) s) =
       press Web False (PressStart Granted True) (emotionRecorder s))"
proof -
  let ?t3 = "\<lparr>now = 3000, iso = ''t3''\<rparr>"
  let ?s1 = "screen_run Web
       [(\<lparr>now = 1000, iso = ''t1''\<rparr>, AtRecorder Emotion (PressStart Granted True)),
        (\<lparr>now = 2000, iso = ''t2''\<rparr>, AtRecorder Emotion (PressStop ''abc'' UnloadFails))]
       (mount_screen Web ''conv_1'' Granted Granted)"
  let ?s2 = "screen_run Web
       [(\<lparr>now = 1000, iso = ''t1''\<rparr>, ChangeText ''hi''),
        (\<lparr>now = 1000, iso = ''t1''\<rparr>, PressSend)]
       (mount_screen Web ''conv_1'' Granted Granted)"
  have h1: "isProcessing (App ?s1)" "lastUsedPanel (App ?s1) = Emotion"
    by (simp_all add: screen_defs recorder_defs handler_defs store_defs Let_def
        voice_userMessage_def)
  have h1': "isProcessing (App (?s1\<lparr>textInput := ''hi''\<rparr>))"
    using h1(1) by simp
  have h2: "isProcessing (App ?s2)" "lastUsedPanel (App ?s2) = Chat"
    by (simp_all add: screen_defs handler_defs store_defs Let_def trim_hi
        text_userMessage_def)
  have w1: "recorder_event Web ?t3 Emotion (PressStart Granted True) ?s1 = ?s1"
      "recorder_event Web ?t3 Chat (PressStart Granted True) ?s1 = ?s1"
    using gates_while_processing [OF h1(1), of ?t3 "[]" Web Granted True] h1(2) by blast+
  have w2: "handleTextSubmit ?t3 (?s1\<lparr>textInput := ''hi''\<rparr>) = ?s1\<lparr>textInput := ''hi''\<rparr>"
    using gates_while_processing [OF h1', of ?t3 "[]" Web Granted True] by blast
  have w3: "emotionRecorder (recorder_event Web ?t3 Emotion (PressStart Granted True) ?s2) =
       press Web False (PressStart Granted True) (emotionRecorder ?s2)"
    using gates_while_processing [OF h2(1), of ?t3 "[]" Web Granted True] h2(2) by blast
  from h1 h2 w1 w2 w3 show ?thesis
    unfolding Let_def by (intro conjI)
qed

text \<open>
  Claim C4, at the input where the code departs from it. On a freshly mounted screen
  the user starts and stops a recording on the chat screen's recorder. That recorder
  calls the same \<open>handleVoiceMessage\<close>, which sets \<open>lastUsedPanel\<close> to \<open>'emotion'\<close>
  whoever called it. While the exchange is under way the emotion panel, which did not
  start it, is given \<open>isProcessing\<close> and the interim transcript; when the reply and the
  speech have arrived it is given the reply text and the audio URL.
\<close>

theorem chat_voice_shown_on_emotion_panel:
  "let data = \<lparr>transcribed_text = ''hello'', detected_emotion = Some ''sad'',
               emotion_probability = None, emotion_top3 = None, llm_response = ''there''\<rparr>;
       s = screen_run Web
             [(\<lparr>now = 1000, iso = ''t1''\<rparr>, AtRecorder Chat (PressStart Granted True)),
              (\<lparr>now = 2000, iso = ''t2''\<rparr>, AtRecorder Chat (PressStop ''abc'' UnloadFails))]
             (mount_screen Web ''conv_1'' Granted Granted);
       s' = screen_run Web
             [(\<lparr>now = 3000, iso = ''t3''\<rparr>, Answer 0 (VoiceAnswer (Ok data))),
              (\<lparr>now = 4000, iso = ''t4''\<rparr>, Answer 0 (TtsAnswer (TtsAudio ''blob:1'')))] s
   in inflight s = [VoiceAwaitingReply 2000] \<and> lastUsedPanel (App s) = Emotion \<and>
      isProcessing_prop (emotionPanelProps (App s)) \<and>
      userTranscript_prop (emotionPanelProps (App s)) = PROCESSING_TEXT \<and>
      inflight s' = [] \<and>
      userTranscript_prop (emotionPanelProps (App s')) = ''hello'' \<and>
      llmResponse_prop (emotionPanelProps (App s')) = ''there'' \<and>
      audioUrl_prop (emotionPanelProps (App s')) = Some ''blob:1''"
  by (simp add: screen_defs recorder_defs handler_defs store_defs Let_def
      voice_userMessage_def)

section \<open>Properties of the conversation history\<close>

text \<open>
  Claim C9, as the code has it. Against the claim: the user sends \<open>hi\<close>, the reply
  \<open>hello\<close> arrives, and the history lists the conversation. Pressing the delete
  button of that entry, confirmed and answered with success, empties the message list:
  \<open>deleteConversation\<close> itself calls \<open>onNewConversation\<close> when the identifier is the
  current one.
\<close>

theorem delete_clears_transcript:
  "let c = \<lparr>id_conv = ''conv_1'', title = None, last_message = Some ''hello'',
            message_count = 2, updated_at = ''d''\<rparr>;
       s = screen_run Web
             [(\<lparr>now = 1000, iso = ''t1''\<rparr>, ChangeText ''hi''),
              (\<lparr>now = 1000, iso = ''t1''\<rparr>, PressSend),
              (\<lparr>now = 2000, iso = ''t2''\<rparr>, Answer 0 (TextAnswer (Ok ''hello''))),
              (\<lparr>now = 3000, iso = ''t3''\<rparr>, Answer 0 (TtsAnswer TtsNotOk)),
              (\<lparr>now = 4000, iso = ''t4''\<rparr>, HistoryAnswer (Ok [c]))]
             (mount_screen Web ''conv_1'' Granted Granted)
   in conversationId (App s) = Some ''conv_1'' \<and> conversations (App s) = [c] \<and>
      map text_msg (messages (App s)) = [''hi'', ''hello''] \<and>
      messages (App (screen_run Web
                  [(\<lparr>now = 5000, iso = ''t5''\<rparr>, PressDelete ''conv_1'' True),
                   (\<lparr>now = 6000, iso = ''t6''\<rparr>, DeleteAnswer 0 DeleteOk ''conv_2'')] s)) = []"
  by (simp add: screen_defs recorder_defs handler_defs store_defs Let_def trim_hi
      text_userMessage_def assistantMessage_def)

text \<open>
  Claim C9, amended. A confirmed press of the delete button sends the request and keeps
  the list of summaries and the identifier of the current conversation as they are at
  the press; it changes neither the message list nor the identifier nor the list. When
  the request is answered with success, in whatever state the answer finds the
  application, the list of summaries becomes the list kept at the press without the
  entries of the deleted identifier. If the deleted identifier is the one that was
  current at the press, the delete also starts a new conversation: the message list is
  emptied, the identifier is replaced by the new one and the last emotion is cleared.
  Otherwise the message list, the identifier and the last emotion stay as the answer
  finds them.
\<close>

theorem delete_active:
  "deleteConversation_begin cid True st0 =
     (emit (Fetch DELETE (HISTORY_CONVERSATION cid)) st0,
      Some (DeleteAwaiting cid (conversations st0) (conversationId st0))) \<and>
   messages (fst (deleteConversation_begin cid True st0)) = messages st0 \<and>
   conversationId (fst (deleteConversation_begin cid True st0)) = conversationId st0 \<and>
   conversations (fst (deleteConversation_begin cid True st0)) = conversations st0 \<and>
   conversations (deleteConversation_end (DeleteAwaiting cid cs cur) DeleteOk newId st) =
     filter (\<lambda>c. id_conv c \<noteq> cid) cs \<and>
   (if cur = Some cid
    then messages (deleteConversation_end (DeleteAwaiting cid cs cur) DeleteOk newId st) = [] \<and>
         conversationId (deleteConversation_end (DeleteAwaiting cid cs cur) DeleteOk newId st) =
           Some newId \<and>
         currentEmotion (deleteConversation_end (DeleteAwaiting cid cs cur) DeleteOk newId st) =
           None
    else messages (deleteConversation_end (DeleteAwaiting cid cs cur) DeleteOk newId st) =
           messages st \<and>
         conversationId (deleteConversation_end (DeleteAwaiting cid cs cur) DeleteOk newId st) =
           conversationId st \<and>
         currentEmotion (deleteConversation_end (DeleteAwaiting cid cs cur) DeleteOk newId st) =
           currentEmotion st)"
  by (auto simp: deleteConversation_begin_def startNewConversation_def Let_def store_defs)

text \<open>
  The amended claim on a run in which something happens between the press and the
  answer. The history lists \<open>conv_a\<close>, the current conversation, and \<open>conv_b\<close>. The
  user presses delete on \<open>conv_a\<close> and, before the answer, opens \<open>conv_b\<close>, which
  has one message. The answer then empties the transcript of \<open>conv_b\<close> and starts
  \<open>conv_c\<close>, because \<open>conv_a\<close> was current at the press; the list is the one of the
  press without \<open>conv_a\<close>. A delete of \<open>conv_b\<close> pressed in the first state leaves
  the transcript and the identifier as they are.
\<close>

theorem delete_active_witness:
  "let ca = \<lparr>id_conv = ''conv_a'', title = None, last_message = None, message_count = 0,
             updated_at = ''d''\<rparr>;
       cb = \<lparr>id_conv = ''conv_b'', title = None, last_message = Some ''old'',
             message_count = 1, updated_at = ''d''\<rparr>;
       old = \<lparr>id_sm = 7, content = ''old'', role = ''user'', emotion_sm = Some ''happy'',
              emotion_probability_sm = None, created_at = ''d''\<rparr>;
       s = screen_run Web
             [(\<lparr>now = 1000, iso = ''t1''\<rparr>, HistoryAnswer (Ok [ca, cb])),
              (\<lparr>now = 2000, iso = ''t2''\<rparr>, PressDelete ''conv_a'' True),
              (\<lparr>now = 3000, iso = ''t3''\<rparr>, SelectConversation ''conv_b'' (Ok (Some [old])))]
             (mount_screen Web ''conv_a'' Granted Granted);
       s' = screen_step Web \<lparr>now = 4000, iso = ''t4''\<rparr> (DeleteAnswer 0 DeleteOk ''conv_c'') s
   in deleting s = [DeleteAwaiting ''conv_a'' [ca, cb] (Some ''conv_a'')] \<and>
      conversationId (App s) = Some ''conv_b'' \<and>
      map text_msg (messages (App s)) = [''old''] \<and>
      currentEmotion (App s) = Some ''happy'' \<and>
      messages (App s') = [] \<and> conversationId (App s') = Some ''conv_c'' \<and>
      currentEmotion (App s') = None \<and> conversations (App s') = [cb] \<and>
      messages (deleteConversation_end (DeleteAwaiting ''conv_b'' [ca, cb] (Some ''conv_a''))
                  DeleteOk ''conv_c'' (App s)) = messages (App s) \<and>
      conversationId (deleteConversation_end (DeleteAwaiting ''conv_b'' [ca, cb] (Some ''conv_a''))
                  DeleteOk ''conv_c'' (App s)) = Some ''conv_b''"
proof -
  let ?ca = "\<lparr>id_conv = ''conv_a'', title = None, last_message = None, message_count = 0,
             updated_at = ''d''\<rparr>"
  let ?cb = "\<lparr>id_conv = ''conv_b'', title = None, last_message = Some ''old'',
             message_count = 1, updated_at = ''d''\<rparr>"
  let ?old = "\<lparr>id_sm = 7, content = ''old'', role = ''user'', emotion_sm = Some ''happy'',
              emotion_probability_sm = None, created_at = ''d''\<rparr>"
  let ?s = "screen_run Web
             [(\<lparr>now = 1000, iso = ''t1''\<rparr>, HistoryAnswer (Ok [?ca, ?cb])),
              (\<lparr>now = 2000, iso = ''t2''\<rparr>, PressDelete ''conv_a'' True),
              (\<lparr>now = 3000, iso = ''t3''\<rparr>, SelectConversation ''conv_b'' (Ok (Some [?old])))]
             (mount_screen Web ''conv_a'' Granted Granted)"
  let ?s' = "screen_step Web \<lparr>now = 4000, iso = ''t4''\<rparr> (DeleteAnswer 0 DeleteOk ''conv_c'') ?s"
  let ?k = "DeleteAwaiting ''conv_a'' [?ca, ?cb] (Some ''conv_a'')"
  let ?k' = "DeleteAwaiting ''conv_b'' [?ca, ?cb] (Some ''conv_a'')"
  have e: "deleting ?s = [?k]" "conversationId (App ?s) = Some ''conv_b''"
      "map text_msg (messages (App ?s)) = [''old'']" "currentEmotion (App ?s) = Some ''happy''"
    by (simp_all add: screen_defs store_defs Let_def loadConversation_def array_reverse_def
        array_read_def display_message_def truthy_def)
  have step: "App ?s' = deleteConversation_end ?k DeleteOk ''conv_c'' (App ?s)"
    using e(1) by (simp add: deleteAnswer_def del: screen_run.simps)
  have w1: "messages (App ?s') = []" "conversationId (App ?s') = Some ''conv_c''"
      "currentEmotion (App ?s') = None" "conversations (App ?s') = [?cb]"
    unfolding step
    using delete_active [of "''conv_a''" "App ?s" "[?ca, ?cb]" "Some ''conv_a''" "''conv_c''"
        "App ?s"]
    by (simp_all del: screen_run.simps deleteConversation_end.simps)
  have w2: "messages (deleteConversation_end ?k' DeleteOk ''conv_c'' (App ?s)) = messages (App ?s)"
      "conversationId (deleteConversation_end ?k' DeleteOk ''conv_c'' (App ?s)) = Some ''conv_b''"
    using delete_active [of "''conv_b''" "App ?s" "[?ca, ?cb]" "Some ''conv_a''" "''conv_c''"
        "App ?s"] e(2)
    by (simp_all del: screen_run.simps deleteConversation_end.simps)
  from e w1 w2 show ?thesis
    unfolding Let_def by (intro conjI)
qed

lemma find_snoc:
  "find P (xs @ [x]) =
     (case find P xs of None \<Rightarrow> (if P x then Some x else None) | Some y \<Rightarrow> Some y)"
  by (induction xs) auto

lemma find_rev:
  "find P (rev xs) = (if filter P xs = [] then None else Some (last (filter P xs)))"
  by (induction xs) (auto simp: find_snoc split: option.splits)

text \<open>
  Claim C10. After a conversation has been loaded with success, the identifier is the
  loaded one and the message list is the server's list converted and reversed: the
  array that was stored is the array \<open>reverse\<close> then turns around in place. The last
  emotion is that of the last message, in the order the server sent them, whose role is
  \<open>user\<close> and whose emotion is a non-empty string; if there is no such message
  the last emotion is what it was.
\<close>

theorem loadConversation_emotion:
  "messages (loadConversation convId (Ok (Some msgs)) st) = rev (map display_message msgs) \<and>
   conversationId (loadConversation convId (Ok (Some msgs)) st) = Some convId \<and>
   currentEmotion (loadConversation convId (Ok (Some msgs)) st) =
     (if filter (\<lambda>m. role m = ''user'' \<and> truthy (emotion_sm m)) msgs = []
      then currentEmotion st
      else emotion_sm (last (filter (\<lambda>m. role m = ''user'' \<and> truthy (emotion_sm m)) msgs)))"
proof -
  let ?P = "\<lambda>m. isUser m \<and> truthy (emotion m)"
  let ?Q = "\<lambda>m. role m = ''user'' \<and> truthy (emotion_sm m)"
  have f: "filter ?P (map display_message msgs) = map display_message (filter ?Q msgs)"
    by (induction msgs) (simp_all add: display_message_def)
  have l: "filter ?Q msgs \<noteq> [] \<Longrightarrow>
      emotion (last (map display_message (filter ?Q msgs))) = emotion_sm (last (filter ?Q msgs))"
    by (simp add: last_map display_message_def)
  have found: "find ?P (rev (map display_message msgs)) =
      (if filter ?Q msgs = [] then None
       else Some (last (map display_message (filter ?Q msgs))))"
    unfolding find_rev f by simp
  show ?thesis
    using l
    by (simp add: loadConversation_def Let_def store_defs array_reverse_def array_read_def
        found split: option.splits)
qed

theorem loadConversation_emotion_witness:
  "let m1 = \<lparr>id_sm = 1, content = ''a'', role = ''user'', emotion_sm = Some ''sad'',
             emotion_probability_sm = None, created_at = ''d1''\<rparr>;
       m2 = \<lparr>id_sm = 2, content = ''b'', role = ''assistant'', emotion_sm = None,
             emotion_probability_sm = None, created_at = ''d2''\<rparr>;
       m3 = \<lparr>id_sm = 3, content = ''c'', role = ''user'', emotion_sm = Some ''happy'',
             emotion_probability_sm = None, created_at = ''d3''\<rparr>;
       m4 = \<lparr>id_sm = 4, content = ''d'', role = ''user'', emotion_sm = None,
             emotion_probability_sm = None, created_at = ''d4''\<rparr>;
       st = initial_app\<lparr>currentEmotion := Some ''calm''\<rparr>
   in map text_msg (messages (loadConversation ''conv_9'' (Ok (Some [m1, m2, m3, m4])) st)) =
        [''d'', ''c'', ''b'', ''a''] \<and>
      currentEmotion (loadConversation ''conv_9'' (Ok (Some [m1, m2, m3, m4])) st) =
        Some ''happy'' \<and>
      currentEmotion (loadConversation ''conv_9'' (Ok (Some [m2, m4])) st) = Some ''calm''"
proof -
  let ?m1 = "\<lparr>id_sm = 1, content = ''a'', role = ''user'', emotion_sm = Some ''sad'',
             emotion_probability_sm = None, created_at = ''d1''\<rparr>"
  let ?m2 = "\<lparr>id_sm = 2, content = ''b'', role = ''assistant'', emotion_sm = None,
             emotion_probability_sm = None, created_at = ''d2''\<rparr>"
  let ?m3 = "\<lparr>id_sm = 3, content = ''c'', role = ''user'', emotion_sm = Some ''happy'',
             emotion_probability_sm = None, created_at = ''d3''\<rparr>"
  let ?m4 = "\<lparr>id_sm = 4, content = ''d'', role = ''user'', emotion_sm = None,
             emotion_probability_sm = None, created_at = ''d4''\<rparr>"
  let ?st = "initial_app\<lparr>currentEmotion := Some ''calm''\<rparr>"
  have w1: "map text_msg (messages (loadConversation ''conv_9'' (Ok (Some [?m1, ?m2, ?m3, ?m4])) ?st)) =
        [''d'', ''c'', ''b'', ''a'']"
      "currentEmotion (loadConversation ''conv_9'' (Ok (Some [?m1, ?m2, ?m3, ?m4])) ?st) =
        Some ''happy''"
    using loadConversation_emotion [of "''conv_9''" "[?m1, ?m2, ?m3, ?m4]" ?st]
    by (simp_all add: truthy_def display_message_def)
  have w2: "currentEmotion (loadConversation ''conv_9'' (Ok (Some [?m2, ?m4])) ?st) = Some ''calm''"
    using loadConversation_emotion [of "''conv_9''" "[?m2, ?m4]" ?st]
    by (simp add: truthy_def)
  from w1 w2 show ?thesis
    unfolding Let_def by (intro conjI)
qed

end
